theory Spec2Isabelle
  imports Main
begin

section \<open>Data model\<close>

text \<open>
  The credential record of \<^verbatim>\<open>src/types.ts\<close> as the two source files use it:
  \<^verbatim>\<open>accessToken\<close> is a string, every other field may be missing
  (\<^verbatim>\<open>undefined\<close>).  Epoch milliseconds are JavaScript numbers; they are modelled
  as unbounded integers, so the differences the code takes may be negative.
\<close>

record QwenCredentials =
  accessToken :: string
  tokenType :: "string option"
  refreshToken :: "string option"
  resourceUrl :: "string option"
  expiryDate :: "int option"
  scope :: "string option"

text \<open>The interface \<^verbatim>\<open>StoredCredentialsFile\<close> of \<^verbatim>\<open>src/plugin/auth.ts\<close>.\<close>

record StoredCredentialsFile =
  access_token :: "string option"
  token_type :: "string option"
  refresh_token :: "string option"
  resource_url :: "string option"
  expiry_date :: "int option"
  scope_field :: "string option"

text \<open>
  What \<^verbatim>\<open>~/.qwen/oauth_creds.json\<close> holds: nothing (\<^verbatim>\<open>existsSync\<close> is false),
  a content on which \<^verbatim>\<open>readFileSync\<close>, \<^verbatim>\<open>JSON.parse\<close> or the property access
  throws, or a JSON object read through the interface above.  \<^verbatim>\<open>JSON.stringify\<close>
  leaves out a property whose value is \<^verbatim>\<open>undefined\<close>, so a missing field of the
  written object is a missing field of the parsed one.
\<close>

datatype file_state = NoFile | Unparsable | Parsed StoredCredentialsFile

text \<open>The interface \<^verbatim>\<open>RuntimeAuthState\<close> of \<^verbatim>\<open>src/index.ts\<close>.\<close>

record RuntimeAuthState =
  auth_type :: string
  access :: "string option"
  refresh :: "string option"
  expires :: "int option"

subsection \<open>JavaScript truthiness and the operators built on it\<close>

text \<open>A missing or empty string is falsy; a missing or zero number is falsy.\<close>

definition truthy_str :: "string option \<Rightarrow> bool" where
  "truthy_str s = (case s of None \<Rightarrow> False | Some t \<Rightarrow> t \<noteq> [])"

definition truthy_num :: "int option \<Rightarrow> bool" where
  "truthy_num n = (case n of None \<Rightarrow> False | Some k \<Rightarrow> k \<noteq> 0)"

text \<open>\<^verbatim>\<open>a || b\<close> on optional strings and on optional numbers.\<close>

definition or_str :: "string option \<Rightarrow> string option \<Rightarrow> string option" where
  "or_str a b = (if truthy_str a then a else b)"

definition or_num :: "int option \<Rightarrow> int option \<Rightarrow> int option" where
  "or_num a b = (if truthy_num a then a else b)"

text \<open>\<^verbatim>\<open>a || 'literal'\<close> and \<^verbatim>\<open>a || number\<close>, whose result is never missing.\<close>

definition str_or :: "string option \<Rightarrow> string \<Rightarrow> string" where
  "str_or a d = (case a of None \<Rightarrow> d | Some t \<Rightarrow> if t = [] then d else t)"

definition num_or :: "int option \<Rightarrow> int \<Rightarrow> int" where
  "num_or a d = (case a of None \<Rightarrow> d | Some k \<Rightarrow> if k = 0 then d else k)"

section \<open>The credential store (\<^verbatim>\<open>src/plugin/auth.ts\<close>)\<close>

text \<open>
  \<^verbatim>\<open>saveCredentials\<close> yields the content of the file after the write;
  \<^verbatim>\<open>loadCredentials\<close> reads a content.  The directory is created when missing and
  the write is taken to succeed.
\<close>

definition saveCredentials :: "QwenCredentials \<Rightarrow> file_state" where
  "saveCredentials credentials = Parsed \<lparr>
     access_token = Some (accessToken credentials),
     token_type = Some (str_or (tokenType credentials) ''Bearer''),
     refresh_token = refreshToken credentials,
     resource_url = resourceUrl credentials,
     expiry_date = expiryDate credentials,
     scope_field = scope credentials \<rparr>"

definition loadCredentials :: "file_state \<Rightarrow> QwenCredentials option" where
  "loadCredentials f = (case f of
       NoFile \<Rightarrow> None
     | Unparsable \<Rightarrow> None
     | Parsed parsed \<Rightarrow>
         if \<not> truthy_str (access_token parsed) \<and> \<not> truthy_str (refresh_token parsed)
         then None
         else Some \<lparr>
           accessToken = str_or (access_token parsed) [],
           tokenType = Some (str_or (token_type parsed) ''Bearer''),
           refreshToken = refresh_token parsed,
           resourceUrl = resource_url parsed,
           expiryDate = expiry_date parsed,
           scope = scope_field parsed \<rparr>)"

section \<open>Reconciling the two credential sources (\<^verbatim>\<open>src/index.ts\<close>)\<close>

definition runtimeAuthToCredentials :: "RuntimeAuthState option \<Rightarrow> QwenCredentials option" where
  "runtimeAuthToCredentials auth = (case auth of
       None \<Rightarrow> None
     | Some a \<Rightarrow>
         if auth_type a \<noteq> ''oauth'' then None
         else if \<not> truthy_str (access a) \<and> \<not> truthy_str (refresh a) then None
         else Some \<lparr>
           accessToken = str_or (access a) [],
           tokenType = Some ''Bearer'',
           refreshToken = refresh a,
           resourceUrl = None,
           expiryDate = expires a,
           scope = None \<rparr>)"

text \<open>\<^verbatim>\<open>credentials?.expiryDate ?? 0\<close>: only a missing value becomes 0.\<close>

definition getExpiryScore :: "QwenCredentials option \<Rightarrow> int" where
  "getExpiryScore credentials = (case credentials of
       None \<Rightarrow> 0
     | Some c \<Rightarrow> (case expiryDate c of None \<Rightarrow> 0 | Some e \<Rightarrow> e))"

text \<open>
  \<^verbatim>\<open>Array.prototype.indexOf\<close>: the first index holding the value, or -1.
\<close>

fun indexOf_from :: "'a list \<Rightarrow> 'a \<Rightarrow> int \<Rightarrow> int" where
  "indexOf_from [] x i = - 1"
| "indexOf_from (y # ys) x i = (if y = x then i else indexOf_from ys x (i + 1))"

definition indexOf :: "'a list \<Rightarrow> 'a \<Rightarrow> int" where
  "indexOf arr x = indexOf_from arr x 0"

text \<open>
  The callback of the \<^verbatim>\<open>filter\<close> over the three refresh tokens:
  \<^verbatim>\<open>Boolean(token) && arr.indexOf(token) === index\<close>.
\<close>

definition keepCandidate :: "string option list \<Rightarrow> string option \<times> nat \<Rightarrow> string option" where
  "keepCandidate arr p = (case p of (token, index) \<Rightarrow>
     if truthy_str token \<and> indexOf arr token = int index then token else None)"

definition filterCandidates :: "string option list \<Rightarrow> string list" where
  "filterCandidates arr = List.map_filter (keepCandidate arr) (zip arr [0 ..< length arr])"

record MergedCredentials =
  mergedAccessToken :: "string option"
  mergedExpiryDate :: "int option"
  refreshCandidates :: "string list"

text \<open>
  The sort of the present sources is stable and its comparator is
  \<^verbatim>\<open>getExpiryScore(b) - getExpiryScore(a)\<close>: descending score, which is
  \<open>sort_key\<close> on the negated score.  \<open>freshest\<close> is element 0 of the sorted array,
  missing when both sources are.
\<close>

definition credentialsByFreshness ::
  "QwenCredentials option \<Rightarrow> QwenCredentials option \<Rightarrow> QwenCredentials list" where
  "credentialsByFreshness runtimeCredentials fileCredentials =
     sort_key (\<lambda>c. - getExpiryScore (Some c))
       (List.map_filter id [runtimeCredentials, fileCredentials])"

definition freshestOf ::
  "QwenCredentials option \<Rightarrow> QwenCredentials option \<Rightarrow> QwenCredentials option" where
  "freshestOf runtimeCredentials fileCredentials =
     (case credentialsByFreshness runtimeCredentials fileCredentials of
        [] \<Rightarrow> None
      | c # _ \<Rightarrow> Some c)"

definition mergeCredentialSources ::
  "QwenCredentials option \<Rightarrow> QwenCredentials option \<Rightarrow> MergedCredentials" where
  "mergeCredentialSources runtimeCredentials fileCredentials =
     (let freshest = freshestOf runtimeCredentials fileCredentials in
      \<lparr> mergedAccessToken =
          or_str (or_str (or_str (map_option accessToken freshest)
                                 (map_option accessToken runtimeCredentials))
                         (map_option accessToken fileCredentials))
                 None,
        mergedExpiryDate =
          or_num (or_num (Option.bind freshest expiryDate)
                         (Option.bind runtimeCredentials expiryDate))
                 (Option.bind fileCredentials expiryDate),
        refreshCandidates = filterCandidates
          [Option.bind freshest refreshToken,
           Option.bind fileCredentials refreshToken,
           Option.bind runtimeCredentials refreshToken] \<rparr>)"

section \<open>The world the plugin runs in\<close>

text \<open>
  A request is \<^verbatim>\<open>input\<close>, the part of \<^verbatim>\<open>init\<close> other than its headers, and the
  headers.  A \<^verbatim>\<open>Headers\<close> object is an association list from (lower-case) names
  to values.
\<close>

record http_request =
  req_input :: string
  req_init :: string
  req_headers :: "(string \<times> string) list"

record http_response =
  status :: int
  resp_headers :: "(string \<times> string) list"
  resp_body :: string

datatype error = NoValidAccessToken | TransportError

text \<open>
  \<^verbatim>\<open>refreshAccessToken\<close> and \<^verbatim>\<open>pollDeviceToken\<close> live in \<^verbatim>\<open>src/qwen/oauth.ts\<close>,
  which is outside the two source files: they are parameters of the model, as are the remote
  server and the host's \<^verbatim>\<open>getAuth\<close>.  A refresh either throws or resolves to a
  credential record.  A poll resolves to a token response (given here as the record
  \<^verbatim>\<open>tokenResponseToCredentials\<close> makes of it), resolves to a falsy value, or throws a
  \<^verbatim>\<open>SlowDownError\<close>, an \<^verbatim>\<open>Error\<close> whose message includes
  \<^verbatim>\<open>authorization_pending\<close>, or anything else.
\<close>

datatype refresh_result = RefreshFailed | Refreshed QwenCredentials

datatype poll_result =
  TokenResponse QwenCredentials | NoToken | ThrowSlowDown | ThrowPending | ThrowOther

text \<open>The effects on disk, network and timers, in the order they happen.\<close>

datatype event =
    ReadFile
  | WriteFile file_state
  | WriteFailed file_state
  | RefreshCall string
  | Fetch http_request
  | Sleep "int option"
  | Poll

text \<open>
  The module-level variables of \<^verbatim>\<open>src/index.ts\<close> (\<^verbatim>\<open>cachedToken\<close>,
  \<^verbatim>\<open>cachedTokenExpiry\<close>, \<^verbatim>\<open>lastRefreshTime\<close>), the request queue's
  \<^verbatim>\<open>lastRequestTime\<close>, the credentials file, the clock that \<^verbatim>\<open>Date.now()\<close>
  reads, and the effects so far.
\<close>

record world =
  cachedToken :: "string option"
  cachedTokenExpiry :: int
  lastRefreshTime :: int
  lastRequestTime :: int
  credFile :: file_state
  clock :: int
  trace :: "event list"

text \<open>
  The surroundings answer each call from the effects so far; an awaited call also takes
  some milliseconds.  A \<^verbatim>\<open>fetch\<close> that rejects is \<open>None\<close>.  \<open>writeFails\<close> says
  whether the next write of the credentials file throws (\<^verbatim>\<open>mkdirSync\<close> or
  \<^verbatim>\<open>writeFileSync\<close> failing).  \<open>jitter\<close> is the sample \<^verbatim>\<open>getJitter()\<close>
  draws.
\<close>

record env =
  getAuth :: "event list \<Rightarrow> RuntimeAuthState option"
  refreshAccessToken :: "event list \<Rightarrow> string \<Rightarrow> nat \<times> refresh_result"
  fetch :: "event list \<Rightarrow> http_request \<Rightarrow> nat \<times> http_response option"
  pollDeviceToken :: "event list \<Rightarrow> nat \<times> poll_result"
  writeFails :: "event list \<Rightarrow> bool"
  jitter :: "event list \<Rightarrow> nat"
  userAgent :: string

definition emit :: "event \<Rightarrow> world \<Rightarrow> world" where
  "emit e w = w\<lparr>trace := trace w @ [e]\<rparr>"

definition advance :: "nat \<Rightarrow> world \<Rightarrow> world" where
  "advance d w = w\<lparr>clock := clock w + int d\<rparr>"

text \<open>
  \<^verbatim>\<open>await new Promise(resolve => setTimeout(resolve, ms))\<close>: the timer fires after
  \<open>ms\<close> milliseconds, and at once when \<open>ms\<close> is negative or \<^verbatim>\<open>NaN\<close>
  (\<open>None\<close>).  A delay above \<^verbatim>\<open>TIMEOUT_MAX\<close>, 2^31 - 1, does not fit the timer and
  is replaced by 1 millisecond.
\<close>

definition TIMEOUT_MAX :: int where
  "TIMEOUT_MAX = 2147483647"

definition sleep :: "int option \<Rightarrow> world \<Rightarrow> world" where
  "sleep ms w = (emit (Sleep ms) w)
     \<lparr>clock := clock w + (case ms of
                              None \<Rightarrow> 0
                            | Some d \<Rightarrow> if TIMEOUT_MAX < d then 1 else max 0 d)\<rparr>"

definition loadCredentials_io :: "world \<Rightarrow> QwenCredentials option \<times> world" where
  "loadCredentials_io w = (loadCredentials (credFile w), emit ReadFile w)"

definition saveCredentials_io :: "QwenCredentials \<Rightarrow> world \<Rightarrow> world" where
  "saveCredentials_io credentials w =
     emit (WriteFile (saveCredentials credentials)) (w\<lparr>credFile := saveCredentials credentials\<rparr>)"

text \<open>
  A call of \<^verbatim>\<open>saveCredentials\<close> inside a \<^verbatim>\<open>try\<close>: \<open>False\<close> is the write
  throwing, which leaves the file as it was, \<open>True\<close> is the write above.
\<close>

definition trySaveCredentials :: "env \<Rightarrow> QwenCredentials \<Rightarrow> world \<Rightarrow> bool \<times> world" where
  "trySaveCredentials env credentials w =
     (if writeFails env (trace w)
      then (False, emit (WriteFailed (saveCredentials credentials)) w)
      else (True, saveCredentials_io credentials w))"

section \<open>Token cache and resolution (\<^verbatim>\<open>src/index.ts\<close>)\<close>

definition TOKEN_CACHE_DURATION :: int where
  "TOKEN_CACHE_DURATION = 5 * 60 * 1000"

definition REFRESH_BEFORE_EXPIRY_MS :: int where
  "REFRESH_BEFORE_EXPIRY_MS = 5 * 60 * 1000"

definition resetTokenCache :: "world \<Rightarrow> world" where
  "resetTokenCache w = w\<lparr>cachedToken := None, cachedTokenExpiry := 0, lastRefreshTime := 0\<rparr>"

text \<open>
  \<^verbatim>\<open>cachedToken && now < cachedTokenExpiry && now - lastRefreshTime < TOKEN_CACHE_DURATION\<close>
\<close>

definition cacheHit :: "world \<Rightarrow> int \<Rightarrow> bool" where
  "cacheHit w now = (truthy_str (cachedToken w) \<and> now < cachedTokenExpiry w
     \<and> now - lastRefreshTime w < TOKEN_CACHE_DURATION)"

text \<open>
  \<^verbatim>\<open>merged.refreshCandidates.length > 0 &&
  (!accessToken || !tokenExpiry || now > tokenExpiry - REFRESH_BEFORE_EXPIRY_MS)\<close>
\<close>

definition shouldRefresh :: "MergedCredentials \<Rightarrow> int \<Rightarrow> bool" where
  "shouldRefresh merged now = (length (refreshCandidates merged) > 0 \<and>
     (\<not> truthy_str (mergedAccessToken merged)
      \<or> (case mergedExpiryDate merged of
            None \<Rightarrow> True
          | Some tokenExpiry \<Rightarrow> tokenExpiry = 0 \<or> now > tokenExpiry - REFRESH_BEFORE_EXPIRY_MS)))"

text \<open>\<^verbatim>\<open>accessToken && tokenExpiry && now > tokenExpiry\<close>\<close>

definition hardExpired :: "string option \<Rightarrow> int option \<Rightarrow> int \<Rightarrow> bool" where
  "hardExpired accessTok tokenExpiry now = (truthy_str accessTok \<and>
     (case tokenExpiry of None \<Rightarrow> False | Some e \<Rightarrow> e \<noteq> 0 \<and> now > e))"

text \<open>
  The \<^verbatim>\<open>for\<close> loop over the candidates, with the local variables
  \<^verbatim>\<open>accessToken\<close> and \<^verbatim>\<open>tokenExpiry\<close> it assigns.  The \<^verbatim>\<open>try\<close> covers the
  refresh call, the two assignments and \<^verbatim>\<open>saveCredentials\<close>: when the call throws the
  variables are as before, when the write throws they already hold the refreshed values,
  and either way the next candidate is tried.  \<open>Some t\<close> is the
  \<^verbatim>\<open>return accessToken\<close> inside the loop; \<open>None\<close> is the loop running to its end.
\<close>

fun refreshLoop ::
  "env \<Rightarrow> string list \<Rightarrow> string option \<times> int option \<Rightarrow> world
     \<Rightarrow> string option \<times> (string option \<times> int option) \<times> world" where
  "refreshLoop env [] locals w = (None, locals, w)"
| "refreshLoop env (refreshTok # rest) locals w =
     (case refreshAccessToken env (trace w) refreshTok of (latency, outcome) \<Rightarrow>
        (let w1 = advance latency (emit (RefreshCall refreshTok) w) in
         case outcome of
           RefreshFailed \<Rightarrow> refreshLoop env rest locals w1
         | Refreshed refreshed \<Rightarrow>
             (let accessTok = accessToken refreshed;
                  tokenExpiry = num_or (expiryDate refreshed) (clock w1 + 3600000)
              in case trySaveCredentials env refreshed w1 of
                   (True, w2) \<Rightarrow>
                     (Some accessTok, (Some accessTok, Some tokenExpiry),
                      w2\<lparr>lastRefreshTime := clock w2,
                         cachedToken := Some accessTok,
                         cachedTokenExpiry := tokenExpiry\<rparr>)
                 | (False, w2) \<Rightarrow>
                     refreshLoop env rest (Some accessTok, Some tokenExpiry) w2)))"

definition getValidAccessToken :: "env \<Rightarrow> world \<Rightarrow> string option \<times> world" where
  "getValidAccessToken env w =
     (let auth = getAuth env (trace w);
          runtimeCredentials = runtimeAuthToCredentials auth;
          (fileCredentials, w1) = loadCredentials_io w;
          merged = mergeCredentialSources runtimeCredentials fileCredentials;
          now = clock w1
      in if cacheHit w1 now then (cachedToken w1, w1)
         else
          (case (if shouldRefresh merged now
                 then refreshLoop env (refreshCandidates merged)
                        (mergedAccessToken merged, mergedExpiryDate merged) w1
                 else (None, (mergedAccessToken merged, mergedExpiryDate merged), w1)) of
             (Some t, locals, w2) \<Rightarrow> (Some t, w2)
           | (None, (accessTok, tokenExpiry), w2) \<Rightarrow>
               if hardExpired accessTok tokenExpiry now then (None, resetTokenCache w2)
               else if truthy_str accessTok then
                 (accessTok, w2\<lparr>cachedToken := accessTok,
                                cachedTokenExpiry := num_or tokenExpiry (clock w2 + 3600000),
                                lastRefreshTime := now\<rparr>)
               else (accessTok, w2)))"

section \<open>The request queue and the fetch wrapper\<close>

text \<open>
  Modelled from the spec: \<^verbatim>\<open>src/plugin/request-queue.ts\<close> is not among the source
  files.  The README prints its \<^verbatim>\<open>enqueue\<close> (elapsed time, wait, the write of
  \<^verbatim>\<open>lastRequestTime\<close>, then the task) and its \<^verbatim>\<open>getJitter\<close> apart; section 4.4 of
  the spec adds the jitter sample to the wait.  A jitter of 0 is the README's
  \<^verbatim>\<open>enqueue\<close> as printed.  One caller at a time is modelled.
\<close>

definition MIN_INTERVAL :: int where
  "MIN_INTERVAL = 1000"



definition enqueue :: "env \<Rightarrow> (world \<Rightarrow> 'a \<times> world) \<Rightarrow> world \<Rightarrow> 'a \<times> world" where
  "enqueue env fn w =
     (let elapsed = clock w - lastRequestTime w;
          waitTime = max 0 (MIN_INTERVAL - elapsed) + int (jitter env (trace w));
          w1 = (if waitTime > 0 then sleep (Some waitTime) w else w);
          w2 = w1\<lparr>lastRequestTime := clock w1\<rparr>
      in fn w2)"

text \<open>\<^verbatim>\<open>Headers.prototype.set\<close> and \<^verbatim>\<open>Headers.prototype.get\<close>.\<close>

fun headers_set :: "string \<Rightarrow> string \<Rightarrow> (string \<times> string) list \<Rightarrow> (string \<times> string) list" where
  "headers_set name v [] = [(name, v)]"
| "headers_set name v ((k, u) # hs) =
     (if k = name then (name, v) # filter (\<lambda>p. fst p \<noteq> name) hs
      else (k, u) # headers_set name v hs)"

fun headers_get :: "string \<Rightarrow> (string \<times> string) list \<Rightarrow> string option" where
  "headers_get name [] = None"
| "headers_get name ((k, u) # hs) = (if k = name then Some u else headers_get name hs)"

text \<open>
  \<^verbatim>\<open>Number.parseInt(s, 10)\<close>: leading white space is skipped, one sign is read, then
  the longest run of decimal digits; with no digit the result is \<^verbatim>\<open>NaN\<close>
  (\<open>None\<close>).  A header value is a byte string, each character a code point below
  256; the white space of ECMAScript in that range is the tab, the line feed, the
  vertical tab, the form feed, the carriage return, the space and the no-break space.
\<close>

definition isWhiteSpace :: "char \<Rightarrow> bool" where
  "isWhiteSpace c =
     (c \<in> set [CHR 0x09, CHR 0x0A, CHR 0x0B, CHR 0x0C, CHR 0x0D, CHR 0x20, CHR 0xA0])"

definition isDigit :: "char \<Rightarrow> bool" where
  "isDigit c = (c \<in> set ''0123456789'')"

definition digitValue :: "char \<Rightarrow> int" where
  "digitValue c = int (of_char c) - 48"

definition parseInt :: "string \<Rightarrow> int option" where
  "parseInt s =
     (let t = dropWhile isWhiteSpace s;
          (sign, u) = (case t of
              [] \<Rightarrow> (1, [])
            | c # r \<Rightarrow> if c = CHR ''-'' then (- 1, r)
                       else if c = CHR ''+'' then (1, r) else (1, t));
          digits = takeWhile isDigit u
      in if digits = [] then None
         else Some (sign * foldl (\<lambda>n c. 10 * n + digitValue c) 0 digits))"

definition bearer :: "string \<Rightarrow> string" where
  "bearer t = ''Bearer '' @ t"

text \<open>The global \<^verbatim>\<open>fetch\<close>: one call to the server.\<close>

definition doFetch :: "env \<Rightarrow> http_request \<Rightarrow> world \<Rightarrow> (error + http_response) \<times> world" where
  "doFetch env req w =
     (case fetch env (trace w) req of (latency, answer) \<Rightarrow>
        ((case answer of None \<Rightarrow> Inl TransportError | Some response \<Rightarrow> Inr response),
         advance latency (emit (Fetch req) w)))"

text \<open>
  The task the wrapper hands to \<^verbatim>\<open>requestQueue.enqueue\<close>: the request, the 401/403
  branch, the 429 branch.
\<close>

definition dispatch ::
  "env \<Rightarrow> string \<Rightarrow> string \<Rightarrow> (string \<times> string) list \<Rightarrow> string \<Rightarrow> world
     \<Rightarrow> (error + http_response) \<times> world" where
  "dispatch env input init headers accessTok w =
     (case doFetch env \<lparr>req_input = input, req_init = init, req_headers = headers\<rparr> w of
        (Inl e, w1) \<Rightarrow> (Inl e, w1)
      | (Inr response, w1) \<Rightarrow>
          (let (retryHeaders, w2) =
                 (if status response = 401 \<or> status response = 403 then
                    (case getValidAccessToken env (resetTokenCache w1) of
                       (retriedToken, wr) \<Rightarrow>
                         (case retriedToken of
                            None \<Rightarrow> (None, wr)
                          | Some t \<Rightarrow>
                              if t \<noteq> [] \<and> t \<noteq> accessTok
                              then (Some (headers_set ''authorization'' (bearer t) headers), wr)
                              else (None, wr)))
                  else (None, w1))
           in case retryHeaders of
                Some newHeaders \<Rightarrow>
                  doFetch env \<lparr>req_input = input, req_init = init, req_headers = newHeaders\<rparr> w2
              | None \<Rightarrow>
                  if status response = 429 then
                    (let retryAfter = str_or (headers_get ''retry-after'' (resp_headers response)) ''60'';
                         w3 = sleep (map_option (\<lambda>n. n * 1000) (parseInt retryAfter)) w2
                     in doFetch env \<lparr>req_input = input, req_init = init, req_headers = headers\<rparr> w3)
                  else (Inr response, w2)))"

text \<open>The \<^verbatim>\<open>fetch\<close> the loader returns.\<close>

definition qwenFetch ::
  "env \<Rightarrow> string \<Rightarrow> string \<Rightarrow> (string \<times> string) list \<Rightarrow> world
     \<Rightarrow> (error + http_response) \<times> world" where
  "qwenFetch env input init initHeaders w =
     (case getValidAccessToken env w of (token, w1) \<Rightarrow>
        if \<not> truthy_str token then (Inl NoValidAccessToken, w1)
        else
          (let accessTok = str_or token [];
               headers =
                 headers_set ''x-dashscope-authtype'' ''qwen-oauth''
                   (headers_set ''x-dashscope-useragent'' (userAgent env)
                      (headers_set ''x-dashscope-cachecontrol'' ''enable''
                         (headers_set ''user-agent'' (userAgent env)
                            (headers_set ''authorization'' (bearer accessTok) initHeaders))))
           in enqueue env (dispatch env input init headers accessTok) w1))"

section \<open>The device-flow polling loop\<close>

datatype callback_result = AuthSuccess string string int | AuthFailed

definition POLLING_MARGIN_MS :: int where
  "POLLING_MARGIN_MS = 3000"

text \<open>
  The \<^verbatim>\<open>while\<close> loop of the \<^verbatim>\<open>callback\<close>.  \<open>interval\<close> starts at 5000 and only
  grows, so it is a natural number; every iteration sleeps at least a millisecond, which
  is why the loop ends.  The \<^verbatim>\<open>try\<close> covers \<^verbatim>\<open>saveCredentials\<close>: a write that
  throws is caught as an error that is neither a \<^verbatim>\<open>SlowDownError\<close> nor pending,
  and the callback returns failed.
\<close>

function pollLoop :: "env \<Rightarrow> int \<Rightarrow> int \<Rightarrow> nat \<Rightarrow> world \<Rightarrow> callback_result \<times> world" where
  "pollLoop env startTime timeoutMs interval w =
     (if clock w - startTime < timeoutMs then
        (let w1 = sleep (Some (int interval + POLLING_MARGIN_MS)) w;
             w2 = advance (fst (pollDeviceToken env (trace w1))) (emit Poll w1)
         in case snd (pollDeviceToken env (trace w1)) of
              TokenResponse credentials \<Rightarrow>
                (case trySaveCredentials env credentials w2 of
                   (True, w3) \<Rightarrow>
                     (AuthSuccess (accessToken credentials)
                        (case refreshToken credentials of None \<Rightarrow> [] | Some r \<Rightarrow> r)
                        (num_or (expiryDate credentials) (clock w3 + 3600000)), w3)
                 | (False, w3) \<Rightarrow> (AuthFailed, w3))
            | NoToken \<Rightarrow> pollLoop env startTime timeoutMs interval w2
            | ThrowSlowDown \<Rightarrow> pollLoop env startTime timeoutMs (min (interval + 5000) 15000) w2
            | ThrowPending \<Rightarrow> pollLoop env startTime timeoutMs interval w2
            | ThrowOther \<Rightarrow> (AuthFailed, w2))
      else (AuthFailed, w))"
  by pat_completeness auto
termination
  by (relation "measure (\<lambda>(env, startTime, timeoutMs, interval, w).
        nat (timeoutMs - (clock w - startTime)))")
     (auto simp: sleep_def advance_def emit_def POLLING_MARGIN_MS_def TIMEOUT_MAX_def)

definition callback :: "env \<Rightarrow> int \<Rightarrow> world \<Rightarrow> callback_result \<times> world" where
  "callback env expires_in w = pollLoop env (clock w) (expires_in * 1000) 5000 w"

section \<open>Notions used to state the properties\<close>

text \<open>
  The specification's words for the reconciler.  The first present token of a list; the
  present tokens of a list; a list without its repetitions, the first occurrence kept.
\<close>

fun spec_firstPresent :: "string option list \<Rightarrow> string option" where
  "spec_firstPresent [] = None"
| "spec_firstPresent (t # ts) = (if truthy_str t then t else spec_firstPresent ts)"

fun spec_present :: "string option list \<Rightarrow> string list" where
  "spec_present [] = []"
| "spec_present (t # ts) = (case t of
       None \<Rightarrow> spec_present ts
     | Some s \<Rightarrow> if s = [] then spec_present ts else s # spec_present ts)"

fun spec_dedup :: "'a list \<Rightarrow> 'a list" where
  "spec_dedup [] = []"
| "spec_dedup (x # xs) = x # spec_dedup (filter (\<lambda>y. y \<noteq> x) xs)"

text \<open>
  The specification's ranking, in its words: the larger expiry wins, a missing expiry
  ranks lowest, and a tie goes to the runtime source, then the file.
\<close>

definition spec_ranksAbove :: "int option \<Rightarrow> int option \<Rightarrow> bool" where
  "spec_ranksAbove a b = (case a of
       None \<Rightarrow> False
     | Some x \<Rightarrow> (case b of None \<Rightarrow> True | Some y \<Rightarrow> y < x))"

definition spec_freshest ::
  "QwenCredentials option \<Rightarrow> QwenCredentials option \<Rightarrow> QwenCredentials option" where
  "spec_freshest runtimeCredentials fileCredentials = (case runtimeCredentials of
       None \<Rightarrow> fileCredentials
     | Some r \<Rightarrow> (case fileCredentials of
           None \<Rightarrow> Some r
         | Some f \<Rightarrow> if spec_ranksAbove (expiryDate f) (expiryDate r) then Some f else Some r))"

text \<open>The ranking the code has: the same, with a missing expiry counted as 0.\<close>

definition scoredFreshest ::
  "QwenCredentials option \<Rightarrow> QwenCredentials option \<Rightarrow> QwenCredentials option" where
  "scoredFreshest runtimeCredentials fileCredentials = (case runtimeCredentials of
       None \<Rightarrow> fileCredentials
     | Some r \<Rightarrow> (case fileCredentials of
           None \<Rightarrow> Some r
         | Some f \<Rightarrow> if getExpiryScore (Some r) < getExpiryScore (Some f) then Some f else Some r))"

text \<open>
  What one call of \<^verbatim>\<open>getValidAccessToken\<close> reconciles: the runtime view and the
  file as they are when the call starts.
\<close>

definition mergedView :: "env \<Rightarrow> world \<Rightarrow> MergedCredentials" where
  "mergedView env w = mergeCredentialSources
     (runtimeAuthToCredentials (getAuth env (trace w))) (loadCredentials (credFile w))"

text \<open>The effects between two worlds, the refresh calls, file writes and requests among effects.\<close>

definition since :: "world \<Rightarrow> world \<Rightarrow> event list" where
  "since w w' = drop (length (trace w)) (trace w')"

fun refreshCalls :: "event list \<Rightarrow> string list" where
  "refreshCalls [] = []"
| "refreshCalls (RefreshCall t # es) = t # refreshCalls es"
| "refreshCalls (e # es) = refreshCalls es"

fun fileWrites :: "event list \<Rightarrow> file_state list" where
  "fileWrites [] = []"
| "fileWrites (WriteFile f # es) = f # fileWrites es"
| "fileWrites (e # es) = fileWrites es"

fun fetches :: "event list \<Rightarrow> http_request list" where
  "fetches [] = []"
| "fetches (Fetch r # es) = r # fetches es"
| "fetches (e # es) = fetches es"

fun sleeps :: "event list \<Rightarrow> int option list" where
  "sleeps [] = []"
| "sleeps (Sleep d # es) = d # sleeps es"
| "sleeps (e # es) = sleeps es"

fun polls :: "event list \<Rightarrow> nat" where
  "polls [] = 0"
| "polls (Poll # es) = Suc (polls es)"
| "polls (e # es) = polls es"

text \<open>
  Every refresh of the given tokens throws, each tried after the ones before it.
\<close>

fun allFail :: "env \<Rightarrow> event list \<Rightarrow> string list \<Rightarrow> bool" where
  "allFail env h [] = True"
| "allFail env h (t # ts) =
     (snd (refreshAccessToken env h t) = RefreshFailed \<and> allFail env (h @ [RefreshCall t]) ts)"


text \<open>
  The record of section 6 of the specification that a saved credential leaves in the
  file.
\<close>

definition writtenRecord :: "QwenCredentials \<Rightarrow> file_state" where
  "writtenRecord c = Parsed \<lparr>
     access_token = Some (accessToken c),
     token_type = Some (case tokenType c of
                          None \<Rightarrow> ''Bearer''
                        | Some t \<Rightarrow> if t = [] then ''Bearer'' else t),
     refresh_token = refreshToken c,
     resource_url = resourceUrl c,
     expiry_date = expiryDate c,
     scope_field = scope c \<rparr>"

text \<open>The token cache of a world.\<close>

definition cacheOf :: "world \<Rightarrow> string option \<times> int \<times> int" where
  "cacheOf w = (cachedToken w, cachedTokenExpiry w, lastRefreshTime w)"

definition request :: "string \<Rightarrow> string \<Rightarrow> (string \<times> string) list \<Rightarrow> http_request" where
  "request input init headers = \<lparr>req_input = input, req_init = init, req_headers = headers\<rparr>"

text \<open>
  A poll that reports \<^verbatim>\<open>authorization_pending\<close>: the thrown error whose message
  includes it, or the falsy return.
\<close>

definition pendingOutcome :: "poll_result \<Rightarrow> bool" where
  "pendingOutcome r = (r = ThrowPending \<or> r = NoToken)"

text \<open>The effects of \<open>n\<close> rounds of the polling loop: a sleep, then a poll.\<close>

fun rounds :: "nat \<Rightarrow> int \<Rightarrow> event list" where
  "rounds 0 d = []"
| "rounds (Suc n) d = Sleep (Some d) # Poll # rounds n d"

text \<open>The differences between neighbours of a list of times.\<close>

fun gaps :: "int list \<Rightarrow> int list" where
  "gaps (a # b # r) = (b - a) # gaps (b # r)"
| "gaps r = []"



section \<open>Example surroundings and states\<close>

text \<open>
  Surroundings in which the host always reports the same auth state, a refresh token is
  granted exactly when it is listed, the server answers the n-th request with the n-th
  listed response, the n-th poll has the n-th listed outcome, every write of the file
  completes, and no call takes time.
\<close>

definition exampleEnv ::
  "RuntimeAuthState option \<Rightarrow> (string \<times> QwenCredentials) list \<Rightarrow> http_response list
     \<Rightarrow> poll_result list \<Rightarrow> env" where
  "exampleEnv auth grants responses pollScript = \<lparr>
     getAuth = (\<lambda>h. auth),
     refreshAccessToken = (\<lambda>h t. (0, case map_of grants t of
                                        None \<Rightarrow> RefreshFailed
                                      | Some c \<Rightarrow> Refreshed c)),
     fetch = (\<lambda>h req. (0, if length (fetches h) < length responses
                           then Some (responses ! length (fetches h)) else None)),
     pollDeviceToken = (\<lambda>h. (0, if polls h < length pollScript
                                then pollScript ! polls h else ThrowOther)),
     writeFails = (\<lambda>h. False),
     jitter = (\<lambda>h. 0),
     userAgent = ''QwenCode/0.10.3 (linux; x64)'' \<rparr>"

definition cred :: "string \<Rightarrow> string option \<Rightarrow> int option \<Rightarrow> QwenCredentials" where
  "cred a r e = \<lparr>accessToken = a, tokenType = Some ''Bearer'', refreshToken = r,
     resourceUrl = None, expiryDate = e, scope = None\<rparr>"

definition stored :: "string option \<Rightarrow> string option \<Rightarrow> int option \<Rightarrow> file_state" where
  "stored a r e = Parsed \<lparr>access_token = a, token_type = Some ''Bearer'', refresh_token = r,
     resource_url = None, expiry_date = e, scope_field = None\<rparr>"

definition oauthState :: "string option \<Rightarrow> string option \<Rightarrow> int option \<Rightarrow> RuntimeAuthState" where
  "oauthState a r e = \<lparr>auth_type = ''oauth'', access = a, refresh = r, expires = e\<rparr>"

text \<open>A world with the given cache, file and clock, and no effect so far.\<close>

definition worldAt :: "string option \<times> int \<times> int \<Rightarrow> file_state \<Rightarrow> int \<Rightarrow> world" where
  "worldAt cache file now = \<lparr>cachedToken = fst cache, cachedTokenExpiry = fst (snd cache),
     lastRefreshTime = snd (snd cache), lastRequestTime = 0, credFile = file, clock = now,
     trace = []\<rparr>"

definition emptyCache :: "string option \<times> int \<times> int" where
  "emptyCache = (None, 0, 0)"

text \<open>
  The host holds an access token that expired long ago and a refresh token the server
  rejects; the file holds an older token and a refresh token the server accepts.
\<close>

definition staleEnv :: env where
  "staleEnv = exampleEnv (Some (oauthState (Some ''old'') (Some ''r1'') (Some 100)))
     [(''r2'', cred ''new'' (Some ''r3'') (Some 9000000))] [] []"

definition staleWorld :: world where
  "staleWorld = worldAt emptyCache (stored (Some ''old2'') (Some ''r2'') (Some 50)) 1000"

text \<open>A host that is signed out.\<close>

definition signedOutEnv :: env where
  "signedOutEnv = exampleEnv None [] [] []"

text \<open>Worlds at time 1000: a file whose expiry is 0, no file, and a cache that is still valid.\<close>

definition zeroExpiryWorld :: world where
  "zeroExpiryWorld = worldAt emptyCache (stored (Some ''F'') None (Some 0)) 1000"

definition signedOutWorld :: world where
  "signedOutWorld = worldAt emptyCache NoFile 1000"

definition cachedWorld :: world where
  "cachedWorld = worldAt (Some ''T'', 10000000, 900) NoFile 1000"

text \<open>Responses, and servers that answer 401 once, or 429 with an HTTP date to retry after.\<close>

definition unauthorized :: http_response where
  "unauthorized = \<lparr>status = 401, resp_headers = [], resp_body = []\<rparr>"

definition okResponse :: http_response where
  "okResponse = \<lparr>status = 200, resp_headers = [], resp_body = ''ok''\<rparr>"

definition rateLimited :: "string option \<Rightarrow> http_response" where
  "rateLimited retryAfter = \<lparr>status = 429,
     resp_headers = (case retryAfter of None \<Rightarrow> [] | Some v \<Rightarrow> [(''retry-after'', v)]),
     resp_body = []\<rparr>"

definition rotatedEnv :: env where
  "rotatedEnv = exampleEnv (Some (oauthState (Some ''T2'') None (Some 100000000))) []
     [unauthorized, okResponse] []"

definition httpDateEnv :: env where
  "httpDateEnv = exampleEnv None []
     [rateLimited (Some ''Wed, 21 Oct 2015 07:28:00 GMT''), okResponse] []"

definition busyWorld :: world where
  "busyWorld = worldAt (Some ''T1'', 100000000, 4000) NoFile 5000"

text \<open>A device flow whose first three polls are pending and whose fourth succeeds.\<close>

definition pendingEnv :: env where
  "pendingEnv = exampleEnv None [] []
     [ThrowPending, ThrowPending, ThrowPending, TokenResponse (cred ''A'' (Some ''R'') None)]"

text \<open>
  The host's token expired at 100 and its refresh token is rejected; the cache still holds
  that token, expired at 500.
\<close>

definition rejectingEnv :: env where
  "rejectingEnv = exampleEnv (Some (oauthState (Some ''old'') (Some ''r1'') (Some 100))) [] [] []"

definition staleCacheWorld :: world where
  "staleCacheWorld = worldAt (Some ''old'', 500, 100) NoFile 1000"

text \<open>
  Both refresh tokens are granted, \<open>r1\<close> the token \<open>n1\<close> and \<open>r2\<close> the token
  \<open>n2\<close>; the write after the grant of \<open>r1\<close> throws, or every write throws.
\<close>

definition grantingEnv :: env where
  "grantingEnv = exampleEnv (Some (oauthState (Some ''old'') (Some ''r1'') (Some 100)))
     [(''r1'', cred ''n1'' None (Some 9000000)), (''r2'', cred ''n2'' None (Some 9500000))] [] []"

definition firstWriteFailsEnv :: env where
  "firstWriteFailsEnv = grantingEnv\<lparr>writeFails := (\<lambda>h. refreshCalls h = [''r1''])\<rparr>"

definition readOnlyDiskEnv :: env where
  "readOnlyDiskEnv = grantingEnv\<lparr>writeFails := (\<lambda>h. True)\<rparr>"

text \<open>
  A device flow with one pending poll before the success, and the scripted flow above on
  a disk that cannot be written.
\<close>

definition onePendingEnv :: env where
  "onePendingEnv = exampleEnv None [] []
     [ThrowPending, TokenResponse (cred ''A'' (Some ''R'') None)]"

definition pendingReadOnlyEnv :: env where
  "pendingReadOnlyEnv = pendingEnv\<lparr>writeFails := (\<lambda>h. True)\<rparr>"

text \<open>
  A server behind a queue whose jitter sample is always 500: it answers the first request
  with 429 and no \<^verbatim>\<open>Retry-After\<close>, and every later one with 200.
\<close>

definition throttledEnv :: env where
  "throttledEnv = (exampleEnv None [] [rateLimited None, okResponse, okResponse, okResponse] [])
     \<lparr>jitter := (\<lambda>h. 500)\<rparr>"

lemmas example_defs = staleEnv_def staleWorld_def signedOutEnv_def
  zeroExpiryWorld_def signedOutWorld_def cachedWorld_def unauthorized_def okResponse_def
  rateLimited_def rotatedEnv_def httpDateEnv_def busyWorld_def pendingEnv_def request_def
  rejectingEnv_def staleCacheWorld_def grantingEnv_def firstWriteFailsEnv_def
  readOnlyDiskEnv_def onePendingEnv_def pendingReadOnlyEnv_def throttledEnv_def
  exampleEnv_def worldAt_def emptyCache_def cred_def stored_def oauthState_def

section \<open>The credential store and the reconciler: properties\<close>

lemma freshestOf_scored: "freshestOf r f = scoredFreshest r f"
  by (cases r; cases f)
     (auto simp: freshestOf_def scoredFreshest_def credentialsByFreshness_def)

lemma filterCandidates_three:
  "filterCandidates [a, b, c] = spec_dedup (spec_present [a, b, c])"
  by (cases a; cases b; cases c)
     (auto simp: filterCandidates_def keepCandidate_def indexOf_def truthy_str_def upt_rec)

lemma access_chain: "or_str (or_str (or_str a b) c) None = spec_firstPresent [a, b, c]"
  by (auto simp: or_str_def truthy_str_def split: option.splits)

lemma scored_is_spec_when_positive:
  "(\<forall>e. expiryDate a = Some e \<longrightarrow> 0 < e) \<Longrightarrow> (\<forall>e. expiryDate b = Some e \<longrightarrow> 0 < e) \<Longrightarrow>
   scoredFreshest (Some a) (Some b) = spec_freshest (Some a) (Some b)"
  by (auto simp: scoredFreshest_def spec_freshest_def spec_ranksAbove_def getExpiryScore_def
      split: option.splits)

lemma merged_token_nonempty: "mergedAccessToken (mergeCredentialSources r f) \<noteq> Some []"
  by (simp add: mergeCredentialSources_def Let_def or_str_def truthy_str_def split: option.splits)

lemma merged_truthy:
  "truthy_str (mergedAccessToken (mergeCredentialSources r f))
     = (mergedAccessToken (mergeCredentialSources r f) \<noteq> None)"
  using merged_token_nonempty[of r f] by (auto simp: truthy_str_def split: option.splits)

text \<open>
  C1, as stated, fails.  The runtime source expires at -1 and the file source has no
  expiry: the specification ranks the missing expiry lowest and takes the runtime token
  \<open>R\<close>, the code scores the missing expiry 0, above -1, and takes the file token \<open>F\<close>.
\<close>

theorem mergeCredentialSources_negative_expiry:
  "mergedAccessToken (mergeCredentialSources (Some (cred ''R'' None (Some (- 1))))
                                              (Some (cred ''F'' None None))) = Some ''F''
   \<and> spec_firstPresent
       [map_option accessToken
          (spec_freshest (Some (cred ''R'' None (Some (- 1)))) (Some (cred ''F'' None None))),
        Some ''R'', Some ''F''] = Some ''R''"
  by (simp add: mergeCredentialSources_def freshestOf_scored scoredFreshest_def spec_freshest_def
      spec_ranksAbove_def getExpiryScore_def cred_def or_str_def truthy_str_def Let_def)

text \<open>
  C1, amended.  For every pair of sources, each possibly missing, the merged access token
  is the first present one among the freshest source's, the runtime's and the file's,
  where the freshest source is the one with the larger expiry score, the score of a
  missing expiry being 0 and a tie going to the runtime source.  The refresh candidates
  are the freshest source's, the file's and the runtime's refresh tokens, the missing and
  empty ones dropped, repetitions dropped with the first occurrence kept.  The freshest
  source is the one the specification names whenever a source is missing or every present
  expiry is positive.  When both sources carry the same refresh token, it is the only
  candidate.  The result is a function of the two sources alone.
\<close>

theorem mergeCredentialSources_reconciles:
  "mergedAccessToken (mergeCredentialSources r f) =
      spec_firstPresent [map_option accessToken (scoredFreshest r f),
                         map_option accessToken r, map_option accessToken f]
   \<and> refreshCandidates (mergeCredentialSources r f) =
      spec_dedup (spec_present [Option.bind (scoredFreshest r f) refreshToken,
                                Option.bind f refreshToken, Option.bind r refreshToken])
   \<and> (\<forall>a b. r = Some a \<and> f = Some b \<and> (\<forall>e. expiryDate a = Some e \<longrightarrow> 0 < e)
              \<and> (\<forall>e. expiryDate b = Some e \<longrightarrow> 0 < e)
          \<longrightarrow> scoredFreshest r f = spec_freshest r f)
   \<and> (r = None \<or> f = None \<longrightarrow> scoredFreshest r f = spec_freshest r f)
   \<and> (\<forall>a b t. r = Some a \<and> f = Some b \<and> refreshToken a = Some t \<and> refreshToken b = Some t
              \<and> t \<noteq> []
          \<longrightarrow> refreshCandidates (mergeCredentialSources r f) = [t])"
proof -
  have 1: "mergedAccessToken (mergeCredentialSources r f) =
      spec_firstPresent [map_option accessToken (scoredFreshest r f),
                         map_option accessToken r, map_option accessToken f]"
    by (simp only: mergeCredentialSources_def Let_def freshestOf_scored access_chain
        MergedCredentials.simps)
  have 2: "refreshCandidates (mergeCredentialSources r f) =
      spec_dedup (spec_present [Option.bind (scoredFreshest r f) refreshToken,
                                Option.bind f refreshToken, Option.bind r refreshToken])"
    by (simp only: mergeCredentialSources_def Let_def freshestOf_scored filterCandidates_three
        MergedCredentials.simps)
  have 3: "\<forall>a b. r = Some a \<and> f = Some b \<and> (\<forall>e. expiryDate a = Some e \<longrightarrow> 0 < e)
              \<and> (\<forall>e. expiryDate b = Some e \<longrightarrow> 0 < e)
          \<longrightarrow> scoredFreshest r f = spec_freshest r f"
    using scored_is_spec_when_positive by blast
  have 4: "r = None \<or> f = None \<longrightarrow> scoredFreshest r f = spec_freshest r f"
    by (auto simp: scoredFreshest_def spec_freshest_def split: option.splits)
  have 5: "\<forall>a b t. r = Some a \<and> f = Some b \<and> refreshToken a = Some t \<and> refreshToken b = Some t
              \<and> t \<noteq> []
          \<longrightarrow> refreshCandidates (mergeCredentialSources r f) = [t]"
    unfolding 2 by (auto simp: scoredFreshest_def)
  from 1 2 3 4 5 show ?thesis by blast
qed

text \<open>
  A witness for C1: the runtime source expires at 100, the file source at 200, both carry
  the refresh token \<open>A\<close>.  The file's access token is taken and \<open>A\<close> is the only
  candidate.
\<close>

theorem mergeCredentialSources_reconciles_witness:
  "refreshToken (cred ''R'' (Some ''A'') (Some 100)) = Some ''A''
   \<and> refreshToken (cred ''F'' (Some ''A'') (Some 200)) = Some ''A''
   \<and> ''A'' \<noteq> []
   \<and> mergedAccessToken (mergeCredentialSources (Some (cred ''R'' (Some ''A'') (Some 100)))
        (Some (cred ''F'' (Some ''A'') (Some 200)))) = Some ''F''
   \<and> refreshCandidates (mergeCredentialSources (Some (cred ''R'' (Some ''A'') (Some 100)))
        (Some (cred ''F'' (Some ''A'') (Some 200)))) = [''A'']"
  using mergeCredentialSources_reconciles
          [of "Some (cred ''R'' (Some ''A'') (Some 100))" "Some (cred ''F'' (Some ''A'') (Some 200))"]
  by (simp add: cred_def scoredFreshest_def getExpiryScore_def truthy_str_def)

lemma load_some:
  "loadCredentials content = Some c \<Longrightarrow>
     \<exists>parsed. content = Parsed parsed
       \<and> (truthy_str (access_token parsed) \<or> truthy_str (refresh_token parsed))
       \<and> accessToken c = str_or (access_token parsed) []
       \<and> refreshToken c = refresh_token parsed"
  by (cases content) (auto simp: loadCredentials_def split: if_splits)

lemma runtime_some:
  "runtimeAuthToCredentials auth = Some c \<Longrightarrow>
     \<exists>a. auth = Some a
       \<and> (truthy_str (access a) \<or> truthy_str (refresh a))
       \<and> accessToken c = str_or (access a) []
       \<and> refreshToken c = refresh a"
  by (cases auth) (auto simp: runtimeAuthToCredentials_def split: if_splits)

lemma str_or_empty: "(str_or a [] = []) = (\<not> truthy_str a)"
  by (auto simp: str_or_def truthy_str_def split: option.splits)

text \<open>
  C9, as stated, fails.  A runtime auth state, and a credentials file, with a refresh
  token and no access token yield a credential whose access token is the empty string.
\<close>

theorem credential_with_empty_accessToken:
  "map_option accessToken (runtimeAuthToCredentials (Some (oauthState None (Some ''R'') None)))
     = Some []
   \<and> map_option accessToken (loadCredentials (stored None (Some ''R'') None)) = Some []"
  by (simp add: runtimeAuthToCredentials_def loadCredentials_def oauthState_def stored_def
      truthy_str_def str_or_def)

text \<open>
  C9, amended.  Every credential that \<^verbatim>\<open>loadCredentials\<close> or
  \<^verbatim>\<open>runtimeAuthToCredentials\<close> returns has a non-empty access token or a non-empty
  refresh token; its access token is empty exactly when the source had no access token.
\<close>

theorem returned_credential_has_a_token:
  "(loadCredentials content = Some c \<longrightarrow>
       (accessToken c \<noteq> [] \<or> truthy_str (refreshToken c))
     \<and> (accessToken c = [] \<longleftrightarrow> (\<forall>parsed. content = Parsed parsed \<longrightarrow> \<not> truthy_str (access_token parsed))))
   \<and> (runtimeAuthToCredentials auth = Some c' \<longrightarrow>
       (accessToken c' \<noteq> [] \<or> truthy_str (refreshToken c'))
     \<and> (accessToken c' = [] \<longleftrightarrow> (\<forall>a. auth = Some a \<longrightarrow> \<not> truthy_str (access a))))"
proof (intro conjI impI)
  assume "loadCredentials content = Some c"
  from load_some[OF this] obtain parsed where p: "content = Parsed parsed"
    "truthy_str (access_token parsed) \<or> truthy_str (refresh_token parsed)"
    "accessToken c = str_or (access_token parsed) []" "refreshToken c = refresh_token parsed"
    by blast
  from p show "accessToken c \<noteq> [] \<or> truthy_str (refreshToken c)"
    by (simp add: str_or_empty)
  from p show "accessToken c = [] \<longleftrightarrow> (\<forall>parsed. content = Parsed parsed \<longrightarrow> \<not> truthy_str (access_token parsed))"
    by (simp add: str_or_empty)
next
  assume "runtimeAuthToCredentials auth = Some c'"
  from runtime_some[OF this] obtain a where p: "auth = Some a"
    "truthy_str (access a) \<or> truthy_str (refresh a)"
    "accessToken c' = str_or (access a) []" "refreshToken c' = refresh a"
    by blast
  from p show "accessToken c' \<noteq> [] \<or> truthy_str (refreshToken c')"
    by (simp add: str_or_empty)
  from p show "accessToken c' = [] \<longleftrightarrow> (\<forall>a. auth = Some a \<longrightarrow> \<not> truthy_str (access a))"
    by (simp add: str_or_empty)
qed

text \<open>
  A witness for C9: a file and an auth state with both tokens, and what is returned for them.
\<close>

theorem returned_credential_has_a_token_witness:
  "loadCredentials (stored (Some ''A'') (Some ''R'') None) = Some (cred ''A'' (Some ''R'') None)
   \<and> runtimeAuthToCredentials (Some (oauthState (Some ''B'') None (Some 5)))
       = Some (cred ''B'' None (Some 5))
   \<and> accessToken (cred ''A'' (Some ''R'') None) \<noteq> []
   \<and> accessToken (cred ''B'' None (Some 5)) \<noteq> []"
  using returned_credential_has_a_token
          [of "stored (Some ''A'') (Some ''R'') None" "cred ''A'' (Some ''R'') None"
              "Some (oauthState (Some ''B'') None (Some 5))" "cred ''B'' None (Some 5)"]
  by (simp add: loadCredentials_def runtimeAuthToCredentials_def stored_def cred_def
      oauthState_def truthy_str_def str_or_def)

text \<open>
  C10.  Saving a credential with a non-empty access token and loading the file again,
  whatever the file held before, returns a credential with the same access token, refresh
  token, resource URL, expiry and scope, and with the saved token type, or \<open>Bearer\<close>
  when that was missing or empty.
\<close>

theorem save_then_load:
  "accessToken c \<noteq> [] \<Longrightarrow>
   fst (loadCredentials_io (saveCredentials_io c w)) = Some \<lparr>
     accessToken = accessToken c,
     tokenType = Some (case tokenType c of
                         None \<Rightarrow> ''Bearer''
                       | Some t \<Rightarrow> if t = [] then ''Bearer'' else t),
     refreshToken = refreshToken c,
     resourceUrl = resourceUrl c,
     expiryDate = expiryDate c,
     scope = scope c \<rparr>"
  by (simp add: loadCredentials_io_def saveCredentials_io_def emit_def loadCredentials_def
      saveCredentials_def truthy_str_def str_or_def split: option.splits)

text \<open>
  A witness for C10: a credential with no token type, saved over a missing file, comes
  back with the type \<open>Bearer\<close>.
\<close>

theorem save_then_load_witness:
  "''tok'' \<noteq> []
   \<and> fst (loadCredentials_io (saveCredentials_io \<lparr>accessToken = ''tok'', tokenType = None,
        refreshToken = Some ''ref'', resourceUrl = Some ''portal.qwen.ai'',
        expiryDate = Some 1700000000000, scope = None\<rparr> signedOutWorld))
     = Some \<lparr>accessToken = ''tok'', tokenType = Some ''Bearer'',
        refreshToken = Some ''ref'', resourceUrl = Some ''portal.qwen.ai'',
        expiryDate = Some 1700000000000, scope = None\<rparr>"
  using save_then_load [of "\<lparr>accessToken = ''tok'', tokenType = None,
        refreshToken = Some ''ref'', resourceUrl = Some ''portal.qwen.ai'',
        expiryDate = Some 1700000000000, scope = None\<rparr>" signedOutWorld]
  by simp

section \<open>Token resolution: properties\<close>

lemmas eval_defs = getValidAccessToken_def loadCredentials_io_def loadCredentials_def
  runtimeAuthToCredentials_def mergeCredentialSources_def freshestOf_scored scoredFreshest_def
  getExpiryScore_def filterCandidates_three cacheHit_def shouldRefresh_def hardExpired_def
  truthy_str_def truthy_num_def or_str_def or_num_def str_or_def num_or_def emit_def
  advance_def saveCredentials_io_def trySaveCredentials_def Let_def REFRESH_BEFORE_EXPIRY_MS_def
  TOKEN_CACHE_DURATION_def mergedView_def resetTokenCache_def since_def cacheOf_def




lemma fileWrites_map: "fileWrites (map RefreshCall ts) = []"
  by (induction ts) auto

lemma fetches_append: "fetches (xs @ ys) = fetches xs @ fetches ys"
  by (induction xs rule: fetches.induct) auto

lemma sleeps_append: "sleeps (xs @ ys) = sleeps xs @ sleeps ys"
  by (induction xs rule: sleeps.induct) auto

lemma saveCredentials_written: "saveCredentials c = writtenRecord c"
  by (simp add: saveCredentials_def writtenRecord_def str_or_def split: option.splits)

lemma num_or_cases:
  "num_or e d = (case e of None \<Rightarrow> d | Some x \<Rightarrow> if x = 0 then d else x)"
  by (simp add: num_or_def)

text \<open>One turn of the loop, by what the refresh call and the write do.\<close>

lemma refreshLoop_call_throws:
  "snd (refreshAccessToken env (trace w) t) = RefreshFailed \<Longrightarrow>
   refreshLoop env (t # ts) locals w =
     refreshLoop env ts locals
       (advance (fst (refreshAccessToken env (trace w) t)) (emit (RefreshCall t) w))"
  by (cases "refreshAccessToken env (trace w) t") simp

lemma refreshLoop_write_throws:
  "snd (refreshAccessToken env (trace w) t) = Refreshed c \<Longrightarrow>
   writeFails env (trace w @ [RefreshCall t]) \<Longrightarrow>
   refreshLoop env (t # ts) locals w =
     refreshLoop env ts
       (Some (accessToken c),
        Some (num_or (expiryDate c)
                (clock w + int (fst (refreshAccessToken env (trace w) t)) + 3600000)))
       (emit (WriteFailed (saveCredentials c))
          (advance (fst (refreshAccessToken env (trace w) t)) (emit (RefreshCall t) w)))"
  by (cases "refreshAccessToken env (trace w) t")
     (simp add: Let_def trySaveCredentials_def advance_def emit_def)

lemma refreshLoop_granted:
  "snd (refreshAccessToken env (trace w) t) = Refreshed c \<Longrightarrow>
   \<not> writeFails env (trace w @ [RefreshCall t]) \<Longrightarrow>
   refreshLoop env (t # ts) locals w =
     (Some (accessToken c),
      (Some (accessToken c),
       Some (num_or (expiryDate c)
               (clock w + int (fst (refreshAccessToken env (trace w) t)) + 3600000))),
      w\<lparr>trace := trace w @ [RefreshCall t, WriteFile (saveCredentials c)],
        clock := clock w + int (fst (refreshAccessToken env (trace w) t)),
        credFile := saveCredentials c,
        lastRefreshTime := clock w + int (fst (refreshAccessToken env (trace w) t)),
        cachedToken := Some (accessToken c),
        cachedTokenExpiry := num_or (expiryDate c)
               (clock w + int (fst (refreshAccessToken env (trace w) t)) + 3600000)\<rparr>)"
  by (cases "refreshAccessToken env (trace w) t")
     (simp add: Let_def trySaveCredentials_def saveCredentials_io_def advance_def emit_def)

lemma refreshLoop_allFail:
  "allFail env (trace w) cs \<Longrightarrow>
     \<exists>w'. refreshLoop env cs locals w = (None, locals, w')
       \<and> trace w' = trace w @ map RefreshCall cs
       \<and> cacheOf w' = cacheOf w
       \<and> credFile w' = credFile w
       \<and> lastRequestTime w' = lastRequestTime w
       \<and> clock w \<le> clock w'"
proof (induction cs arbitrary: w)
  case Nil
  then show ?case by simp
next
  case (Cons c cs)
  let ?w1 = "advance (fst (refreshAccessToken env (trace w) c)) (emit (RefreshCall c) w)"
  from Cons.prems have f: "snd (refreshAccessToken env (trace w) c) = RefreshFailed" by simp
  have t1: "trace ?w1 = trace w @ [RefreshCall c]" by (simp add: advance_def emit_def)
  from Cons.prems have "allFail env (trace ?w1) cs" by (simp add: t1)
  from Cons.IH[OF this] obtain w' where
    "refreshLoop env cs locals ?w1 = (None, locals, w')" "trace w' = trace ?w1 @ map RefreshCall cs"
    "cacheOf w' = cacheOf ?w1" "credFile w' = credFile ?w1"
    "lastRequestTime w' = lastRequestTime ?w1" "clock ?w1 \<le> clock w'"
    by blast
  then show ?case
    unfolding refreshLoop_call_throws[OF f]
    by (simp add: t1 cacheOf_def advance_def emit_def)
qed



lemma refreshLoop_effects:
  "\<exists>evs. trace (snd (snd (refreshLoop env cs locals w))) = trace w @ evs
      \<and> fetches evs = [] \<and> sleeps evs = []
      \<and> (cs \<noteq> [] \<longrightarrow> refreshCalls evs \<noteq> [])
      \<and> lastRequestTime (snd (snd (refreshLoop env cs locals w))) = lastRequestTime w
      \<and> clock w \<le> clock (snd (snd (refreshLoop env cs locals w)))"
proof (induction cs arbitrary: w locals)
  case Nil
  then show ?case by simp
next
  case (Cons c cs)
  let ?lat = "fst (refreshAccessToken env (trace w) c)"
  let ?w1 = "advance ?lat (emit (RefreshCall c) w)"
  have t1: "trace ?w1 = trace w @ [RefreshCall c]" "lastRequestTime ?w1 = lastRequestTime w"
    "clock w \<le> clock ?w1"
    by (simp_all add: advance_def emit_def)
  show ?case
  proof (cases "snd (refreshAccessToken env (trace w) c)")
    case RefreshFailed
    from Cons.IH[where w = ?w1 and locals = locals] obtain evs where
      e: "trace (snd (snd (refreshLoop env cs locals ?w1))) = trace ?w1 @ evs"
         "fetches evs = []" "sleeps evs = []"
         "lastRequestTime (snd (snd (refreshLoop env cs locals ?w1))) = lastRequestTime ?w1"
         "clock ?w1 \<le> clock (snd (snd (refreshLoop env cs locals ?w1)))"
      by blast
    have "trace (snd (snd (refreshLoop env (c # cs) locals w))) = trace w @ (RefreshCall c # evs)"
      "fetches (RefreshCall c # evs) = []" "sleeps (RefreshCall c # evs) = []"
      "refreshCalls (RefreshCall c # evs) \<noteq> []"
      "lastRequestTime (snd (snd (refreshLoop env (c # cs) locals w))) = lastRequestTime w"
      "clock w \<le> clock (snd (snd (refreshLoop env (c # cs) locals w)))"
      using e t1 unfolding refreshLoop_call_throws[OF RefreshFailed] by simp_all
    then show ?thesis by blast
  next
    case (Refreshed x)
    show ?thesis
    proof (cases "writeFails env (trace w @ [RefreshCall c])")
      case True
      let ?l2 = "(Some (accessToken x), Some (num_or (expiryDate x) (clock w + int ?lat + 3600000)))"
      let ?w2 = "emit (WriteFailed (saveCredentials x)) ?w1"
      have t2: "trace ?w2 = trace w @ [RefreshCall c, WriteFailed (saveCredentials x)]"
        "lastRequestTime ?w2 = lastRequestTime w" "clock w \<le> clock ?w2"
        by (simp_all add: advance_def emit_def)
      from Cons.IH[where w = ?w2 and locals = ?l2] obtain evs where
        e: "trace (snd (snd (refreshLoop env cs ?l2 ?w2))) = trace ?w2 @ evs"
           "fetches evs = []" "sleeps evs = []"
           "lastRequestTime (snd (snd (refreshLoop env cs ?l2 ?w2))) = lastRequestTime ?w2"
           "clock ?w2 \<le> clock (snd (snd (refreshLoop env cs ?l2 ?w2)))"
        by blast
      let ?evs = "RefreshCall c # WriteFailed (saveCredentials x) # evs"
      have "trace (snd (snd (refreshLoop env (c # cs) locals w))) = trace w @ ?evs"
        "fetches ?evs = []" "sleeps ?evs = []" "refreshCalls ?evs \<noteq> []"
        "lastRequestTime (snd (snd (refreshLoop env (c # cs) locals w))) = lastRequestTime w"
        "clock w \<le> clock (snd (snd (refreshLoop env (c # cs) locals w)))"
        using e t2 unfolding refreshLoop_write_throws[OF Refreshed True] by simp_all
      then show ?thesis by blast
    next
      case False
      let ?evs = "[RefreshCall c, WriteFile (saveCredentials x)]"
      have "trace (snd (snd (refreshLoop env (c # cs) locals w))) = trace w @ ?evs"
        "fetches ?evs = []" "sleeps ?evs = []" "refreshCalls ?evs \<noteq> []"
        "lastRequestTime (snd (snd (refreshLoop env (c # cs) locals w))) = lastRequestTime w"
        "clock w \<le> clock (snd (snd (refreshLoop env (c # cs) locals w)))"
        unfolding refreshLoop_granted[OF Refreshed False] by simp_all
      then show ?thesis by blast
    qed
  qed
qed

text \<open>
  What the loop hands on: a returned token is a granted one, and the local token is the
  one it started with or a granted one.
\<close>

lemma refreshLoop_result:
  "refreshLoop env cs locals w = (r, (a, e), w') \<Longrightarrow>
     (r = None \<or> (\<exists>h tok c. snd (refreshAccessToken env h tok) = Refreshed c \<and> r = Some (accessToken c)))
   \<and> (a = fst locals \<or> (\<exists>h tok c. snd (refreshAccessToken env h tok) = Refreshed c \<and> a = Some (accessToken c)))"
proof (induction cs arbitrary: w locals)
  case Nil
  then show ?case by auto
next
  case (Cons c cs)
  show ?case
  proof (cases "snd (refreshAccessToken env (trace w) c)")
    case RefreshFailed
    from Cons.prems Cons.IH show ?thesis
      unfolding refreshLoop_call_throws[OF RefreshFailed] by blast
  next
    case (Refreshed x)
    show ?thesis
    proof (cases "writeFails env (trace w @ [RefreshCall c])")
      case True
      from Cons.prems[unfolded refreshLoop_write_throws[OF Refreshed True]]
      have "(r = None \<or> (\<exists>h tok c. snd (refreshAccessToken env h tok) = Refreshed c \<and> r = Some (accessToken c)))
        \<and> (a = Some (accessToken x) \<or> (\<exists>h tok c. snd (refreshAccessToken env h tok) = Refreshed c \<and> a = Some (accessToken c)))"
        using Cons.IH by fastforce
      with Refreshed show ?thesis by blast
    next
      case False
      from Cons.prems[unfolded refreshLoop_granted[OF Refreshed False]] Refreshed
      show ?thesis by blast
    qed
  qed
qed

lemma clock_emit: "clock (emit e w) = clock w"
  by (simp add: emit_def)

lemma cacheHit_emit: "cacheHit (emit e w) now = cacheHit w now"
  by (simp add: cacheHit_def emit_def)

lemma getValidAccessToken_hit:
  "cacheHit w (clock w) \<Longrightarrow> getValidAccessToken env w = (cachedToken w, emit ReadFile w)"
  by (simp add: getValidAccessToken_def loadCredentials_io_def cacheHit_emit Let_def)
     (simp add: emit_def)

lemma getValidAccessToken_no_refresh:
  "\<not> cacheHit w (clock w) \<Longrightarrow> \<not> shouldRefresh (mergedView env w) (clock w) \<Longrightarrow>
   getValidAccessToken env w =
     (if hardExpired (mergedAccessToken (mergedView env w)) (mergedExpiryDate (mergedView env w)) (clock w)
      then (None, resetTokenCache (emit ReadFile w))
      else if truthy_str (mergedAccessToken (mergedView env w))
      then (mergedAccessToken (mergedView env w),
            (emit ReadFile w)\<lparr>cachedToken := mergedAccessToken (mergedView env w),
               cachedTokenExpiry := num_or (mergedExpiryDate (mergedView env w)) (clock w + 3600000),
               lastRefreshTime := clock w\<rparr>)
      else (mergedAccessToken (mergedView env w), emit ReadFile w))"
  by (simp add: getValidAccessToken_def loadCredentials_io_def cacheHit_emit Let_def mergedView_def)
     (simp add: emit_def)

lemma getValidAccessToken_refresh:
  assumes "\<not> cacheHit w (clock w)" and "shouldRefresh (mergedView env w) (clock w)"
    and "refreshLoop env (refreshCandidates (mergedView env w))
           (mergedAccessToken (mergedView env w), mergedExpiryDate (mergedView env w))
           (emit ReadFile w) = (returned, (accessTok, tokenExpiry), w2)"
  shows "getValidAccessToken env w =
     (case returned of
        Some t \<Rightarrow> (Some t, w2)
      | None \<Rightarrow>
         if hardExpired accessTok tokenExpiry (clock w)
         then (None, resetTokenCache w2)
         else if truthy_str accessTok
         then (accessTok,
            w2\<lparr>cachedToken := accessTok,
               cachedTokenExpiry := num_or tokenExpiry (clock w2 + 3600000),
               lastRefreshTime := clock w\<rparr>)
         else (accessTok, w2))"
  using assms
  by (cases returned)
     (simp_all add: getValidAccessToken_def loadCredentials_io_def cacheHit_emit clock_emit
        Let_def mergedView_def)


lemma hardExpired_literal:
  "hardExpired (mergedAccessToken (mergedView env w)) (mergedExpiryDate (mergedView env w)) now =
     (\<exists>t e. mergedAccessToken (mergedView env w) = Some t
          \<and> mergedExpiryDate (mergedView env w) = Some e \<and> e \<noteq> 0 \<and> e < now)"
  unfolding mergedView_def
  using merged_truthy[of "runtimeAuthToCredentials (getAuth env (trace w))" "loadCredentials (credFile w)"]
  by (auto simp: hardExpired_def split: option.splits)

lemma getValidAccessToken_effects:
  "\<exists>evs. trace (snd (getValidAccessToken env w)) = trace w @ evs
      \<and> fetches evs = [] \<and> sleeps evs = []
      \<and> lastRequestTime (snd (getValidAccessToken env w)) = lastRequestTime w
      \<and> clock w \<le> clock (snd (getValidAccessToken env w))"
proof (cases "cacheHit w (clock w)")
  case True
  have "trace (snd (getValidAccessToken env w)) = trace w @ [ReadFile]"
    "lastRequestTime (snd (getValidAccessToken env w)) = lastRequestTime w"
    "clock w \<le> clock (snd (getValidAccessToken env w))"
    by (simp_all add: getValidAccessToken_hit[OF True] emit_def)
  moreover have "fetches [ReadFile] = []" "sleeps [ReadFile] = []" by simp_all
  ultimately show ?thesis by blast
next
  case miss: False
  show ?thesis
  proof (cases "shouldRefresh (mergedView env w) (clock w)")
    case False
    have "trace (snd (getValidAccessToken env w)) = trace w @ [ReadFile]"
      "lastRequestTime (snd (getValidAccessToken env w)) = lastRequestTime w"
      "clock w \<le> clock (snd (getValidAccessToken env w))"
      by (simp_all add: getValidAccessToken_no_refresh[OF miss False] emit_def resetTokenCache_def)
    moreover have "fetches [ReadFile] = []" "sleeps [ReadFile] = []" by simp_all
    ultimately show ?thesis by blast
  next
    case True
    let ?w1 = "emit ReadFile w"
    let ?cs = "refreshCandidates (mergedView env w)"
    let ?l = "(mergedAccessToken (mergedView env w), mergedExpiryDate (mergedView env w))"
    obtain r2 a2 e2 w2 where rl: "refreshLoop env ?cs ?l ?w1 = (r2, (a2, e2), w2)"
      by (metis prod.collapse)
    from refreshLoop_effects[of env ?cs ?l ?w1] rl obtain evs where
      e: "trace w2 = trace ?w1 @ evs" "fetches evs = []" "sleeps evs = []"
         "lastRequestTime w2 = lastRequestTime ?w1" "clock ?w1 \<le> clock w2"
      by auto
    note g = getValidAccessToken_refresh[OF miss True rl]
    have "trace (snd (getValidAccessToken env w)) = trace w @ (ReadFile # evs)"
      using e(1)
      by (cases r2) (simp_all add: g emit_def resetTokenCache_def)
    moreover have "fetches (ReadFile # evs) = []" "sleeps (ReadFile # evs) = []"
      using e(2,3) by simp_all
    moreover have "lastRequestTime (snd (getValidAccessToken env w)) = lastRequestTime w"
      using e(4)
      by (cases r2) (simp_all add: g emit_def resetTokenCache_def)
    moreover have "clock w \<le> clock (snd (getValidAccessToken env w))"
      using e(5)
      by (cases r2) (simp_all add: g emit_def resetTokenCache_def)
    ultimately show ?thesis by blast
  qed
qed



lemma failure_path:
  assumes "\<not> cacheHit w (clock w)" and "getValidAccessToken env w = (result, w')"
    and "shouldRefresh (mergedView env w) (clock w)"
    and "allFail env (trace w @ [ReadFile]) (refreshCandidates (mergedView env w))"
  shows "since w w' = ReadFile # map RefreshCall (refreshCandidates (mergedView env w))
     \<and> credFile w' = credFile w
     \<and> (result, cacheOf w') =
         (if hardExpired (mergedAccessToken (mergedView env w)) (mergedExpiryDate (mergedView env w)) (clock w)
          then (None, (None, 0, 0))
          else if mergedAccessToken (mergedView env w) \<noteq> None
          then (mergedAccessToken (mergedView env w),
                (mergedAccessToken (mergedView env w),
                 num_or (mergedExpiryDate (mergedView env w)) (clock w' + 3600000), clock w))
          else (None, cacheOf w))"
proof -
  let ?w1 = "emit ReadFile w"
  let ?m = "mergedView env w"
  let ?l = "(mergedAccessToken ?m, mergedExpiryDate ?m)"
  have t1: "trace ?w1 = trace w @ [ReadFile]" by (simp add: emit_def)
  from refreshLoop_allFail[of env ?w1 "refreshCandidates ?m" ?l, unfolded t1, OF assms(4)]
  obtain w2 where rl: "refreshLoop env (refreshCandidates ?m) ?l ?w1 = (None, ?l, w2)"
    and tw: "trace w2 = trace w @ [ReadFile] @ map RefreshCall (refreshCandidates ?m)"
    and cw: "cacheOf w2 = cacheOf (emit ReadFile w)"
    and fw: "credFile w2 = credFile (emit ReadFile w)"
    by auto
  have tr: "truthy_str (mergedAccessToken ?m) = (mergedAccessToken ?m \<noteq> None)"
    by (simp add: mergedView_def merged_truthy)
  have g: "getValidAccessToken env w =
       (if hardExpired (mergedAccessToken ?m) (mergedExpiryDate ?m) (clock w)
         then (None, resetTokenCache w2)
         else if truthy_str (mergedAccessToken ?m)
         then (mergedAccessToken ?m,
            w2\<lparr>cachedToken := mergedAccessToken ?m,
               cachedTokenExpiry := num_or (mergedExpiryDate ?m) (clock w2 + 3600000),
               lastRefreshTime := clock w\<rparr>)
         else (mergedAccessToken ?m, w2))"
    using getValidAccessToken_refresh[OF assms(1) assms(3) rl] by simp
  show ?thesis
    using assms(2) tw cw fw unfolding g tr
    by (auto simp: since_def cacheOf_def resetTokenCache_def emit_def split: if_splits)
qed

lemma resolved_token_nonempty:
  assumes "\<forall>h tok c. snd (refreshAccessToken env h tok) = Refreshed c \<longrightarrow> accessToken c \<noteq> []"
  shows "fst (getValidAccessToken env w) \<noteq> Some []"
proof (cases "cacheHit w (clock w)")
  case True
  then show ?thesis
    by (auto simp: getValidAccessToken_hit cacheHit_def truthy_str_def)
next
  case miss: False
  have m: "mergedAccessToken (mergedView env w) \<noteq> Some []"
    by (simp add: mergedView_def merged_token_nonempty)
  show ?thesis
  proof (cases "shouldRefresh (mergedView env w) (clock w)")
    case False
    show ?thesis
      using m by (simp add: getValidAccessToken_no_refresh[OF miss False])
  next
    case True
    let ?l = "(mergedAccessToken (mergedView env w), mergedExpiryDate (mergedView env w))"
    obtain r2 a2 e2 w2 where
      rl: "refreshLoop env (refreshCandidates (mergedView env w)) ?l (emit ReadFile w) = (r2, (a2, e2), w2)"
      by (metis prod.collapse)
    from refreshLoop_result[OF rl] have
      R: "r2 = None \<or> (\<exists>h tok c. snd (refreshAccessToken env h tok) = Refreshed c \<and> r2 = Some (accessToken c))"
      and A: "a2 = mergedAccessToken (mergedView env w)
          \<or> (\<exists>h tok c. snd (refreshAccessToken env h tok) = Refreshed c \<and> a2 = Some (accessToken c))"
      by simp_all
    have "r2 \<noteq> Some []"
    proof
      assume "r2 = Some []"
      with R obtain h tok c where "snd (refreshAccessToken env h tok) = Refreshed c" "accessToken c = []"
        by auto
      with assms show False by blast
    qed
    moreover have "a2 \<noteq> Some []"
    proof
      assume e: "a2 = Some []"
      with A m obtain h tok c where "snd (refreshAccessToken env h tok) = Refreshed c" "accessToken c = []"
        by auto
      with assms show False by blast
    qed
    ultimately have "r2 \<noteq> Some []" "a2 \<noteq> Some []" by simp_all
    then show ?thesis
      by (cases r2) (auto simp: getValidAccessToken_refresh[OF miss True rl])
  qed
qed




text \<open>
  C3, as stated, fails.  The file holds the token \<open>F\<close> with the expiry 0, which is
  before the clock's 1000, and there is no refresh candidate: the call caches \<open>F\<close>
  for an hour and returns it, since an expiry of 0 counts as no expiry.
\<close>

theorem zero_expiry_token_is_returned:
  "\<not> cacheHit zeroExpiryWorld (clock zeroExpiryWorld)
   \<and> mergedAccessToken (mergedView signedOutEnv zeroExpiryWorld) = Some ''F''
   \<and> mergedExpiryDate (mergedView signedOutEnv zeroExpiryWorld) = Some 0
   \<and> 0 < clock zeroExpiryWorld
   \<and> refreshCandidates (mergedView signedOutEnv zeroExpiryWorld) = []
   \<and> fst (getValidAccessToken signedOutEnv zeroExpiryWorld) = Some ''F''
   \<and> cacheOf (snd (getValidAccessToken signedOutEnv zeroExpiryWorld)) = (Some ''F'', 3601000, 1000)"
  by (simp add: example_defs eval_defs)

text \<open>
  C3, amended.  Past the cache fast path, when the merged view has an access token and a
  known expiry (present and not 0) that is strictly before now, and no refresh succeeds
  (there is no candidate, or every candidate fails), \<^verbatim>\<open>getValidAccessToken\<close> returns
  the absence value, leaves the cache reset (no token, expiry 0, last refresh 0) and
  writes nothing to the file.  The function has no branch that throws.
\<close>

theorem expired_token_resets_cache:
  assumes "\<not> cacheHit w (clock w)"
    and "mergedAccessToken (mergedView env w) = Some t"
    and "mergedExpiryDate (mergedView env w) = Some e" and "e \<noteq> 0" and "e < clock w"
    and "allFail env (trace w @ [ReadFile]) (refreshCandidates (mergedView env w))"
  shows "fst (getValidAccessToken env w) = None
     \<and> cacheOf (snd (getValidAccessToken env w)) = (None, 0, 0)
     \<and> fileWrites (since w (snd (getValidAccessToken env w))) = []"
proof -
  have he: "hardExpired (mergedAccessToken (mergedView env w)) (mergedExpiryDate (mergedView env w)) (clock w)"
    unfolding hardExpired_literal using assms(2-5) by simp
  have p3: "getValidAccessToken env w
      = (fst (getValidAccessToken env w), snd (getValidAccessToken env w))" by simp
  show ?thesis
  proof (cases "shouldRefresh (mergedView env w) (clock w)")
    case True
    note F = failure_path[OF assms(1) p3 True assms(6)]
    then have "since w (snd (getValidAccessToken env w))
        = ReadFile # map RefreshCall (refreshCandidates (mergedView env w))" by simp
    then have "fileWrites (since w (snd (getValidAccessToken env w))) = []"
      by (simp add: fileWrites_map)
    with F he show ?thesis by simp
  next
    case False
    show ?thesis
      by (simp add: getValidAccessToken_no_refresh[OF assms(1) False] he
          resetTokenCache_def cacheOf_def since_def emit_def)
  qed
qed

text \<open>
  A witness for C3: the cache still holds the token \<open>old\<close>, whose expiry 100 is past at
  time 1000, and the server rejects the only refresh token; the call returns nothing and
  the cache is reset.
\<close>

theorem expired_token_resets_cache_witness:
  "\<not> cacheHit staleCacheWorld (clock staleCacheWorld)
   \<and> cacheOf staleCacheWorld = (Some ''old'', 500, 100)
   \<and> mergedAccessToken (mergedView rejectingEnv staleCacheWorld) = Some ''old''
   \<and> mergedExpiryDate (mergedView rejectingEnv staleCacheWorld) = Some 100
   \<and> (100::int) \<noteq> 0 \<and> 100 < clock staleCacheWorld
   \<and> refreshCandidates (mergedView rejectingEnv staleCacheWorld) = [''r1'']
   \<and> allFail rejectingEnv (trace staleCacheWorld @ [ReadFile])
        (refreshCandidates (mergedView rejectingEnv staleCacheWorld))
   \<and> fst (getValidAccessToken rejectingEnv staleCacheWorld) = None
   \<and> cacheOf (snd (getValidAccessToken rejectingEnv staleCacheWorld)) = (None, 0, 0)
   \<and> fileWrites (since staleCacheWorld (snd (getValidAccessToken rejectingEnv staleCacheWorld)))
        = []"
proof -
  have p1: "\<not> cacheHit staleCacheWorld (clock staleCacheWorld)"
    by (simp add: example_defs cacheHit_def truthy_str_def)
  have p0: "cacheOf staleCacheWorld = (Some ''old'', 500, 100)"
    by (simp add: example_defs cacheOf_def)
  have p2: "mergedAccessToken (mergedView rejectingEnv staleCacheWorld) = Some ''old''"
    by (simp add: example_defs eval_defs)
  have p3: "mergedExpiryDate (mergedView rejectingEnv staleCacheWorld) = Some 100"
    by (simp add: example_defs eval_defs)
  have p4: "(100::int) \<noteq> 0" by simp
  have p5: "100 < clock staleCacheWorld" by (simp add: example_defs)
  have p7: "refreshCandidates (mergedView rejectingEnv staleCacheWorld) = [''r1'']"
    by (simp add: example_defs eval_defs)
  have p6: "allFail rejectingEnv (trace staleCacheWorld @ [ReadFile])
        (refreshCandidates (mergedView rejectingEnv staleCacheWorld))"
    unfolding p7 by (simp add: example_defs)
  from expired_token_resets_cache[OF p1 p2 p3 p4 p5 p6] p0 p1 p2 p3 p5 p6 p7 show ?thesis
    by simp
qed

text \<open>
  C4, as stated, fails.  With a valid cache the call still reads the credentials file:
  \<^verbatim>\<open>loadCredentials()\<close> runs before the cache is looked at.
\<close>

theorem cache_fast_path_reads_file:
  "cacheHit cachedWorld (clock cachedWorld)
   \<and> since cachedWorld (snd (getValidAccessToken signedOutEnv cachedWorld)) = [ReadFile]"
  by (simp add: example_defs eval_defs)

text \<open>
  C4, amended.  When the cache holds a token, now is before the cached expiry and less
  than five minutes after the last refresh, \<^verbatim>\<open>getValidAccessToken\<close> returns the
  cached token; its only effect is one read of the credentials file: no refresh call, no
  write, and the cache, the file and the clock are as before.
\<close>

theorem cache_fast_path:
  assumes "cachedToken w = Some t" and "t \<noteq> []"
    and "clock w < cachedTokenExpiry w"
    and "clock w - lastRefreshTime w < 5 * 60 * 1000"
  shows "fst (getValidAccessToken env w) = Some t
   \<and> since w (snd (getValidAccessToken env w)) = [ReadFile]
   \<and> refreshCalls (since w (snd (getValidAccessToken env w))) = []
   \<and> fileWrites (since w (snd (getValidAccessToken env w))) = []
   \<and> cacheOf (snd (getValidAccessToken env w)) = cacheOf w
   \<and> credFile (snd (getValidAccessToken env w)) = credFile w
   \<and> clock (snd (getValidAccessToken env w)) = clock w"
proof -
  have hit: "cacheHit w (clock w)"
    using assms by (simp add: cacheHit_def truthy_str_def TOKEN_CACHE_DURATION_def)
  show ?thesis
    by (simp add: getValidAccessToken_hit[OF hit] assms(1) since_def cacheOf_def emit_def)
qed

text \<open>A witness for C4: the cache holds \<open>T\<close> until 10000000, refreshed at 900; it is 1000.\<close>

theorem cache_fast_path_witness:
  "cachedToken cachedWorld = Some ''T'' \<and> ''T'' \<noteq> []
   \<and> clock cachedWorld < cachedTokenExpiry cachedWorld
   \<and> clock cachedWorld - lastRefreshTime cachedWorld < 5 * 60 * 1000
   \<and> fst (getValidAccessToken signedOutEnv cachedWorld) = Some ''T''
   \<and> cacheOf (snd (getValidAccessToken signedOutEnv cachedWorld)) = (Some ''T'', 10000000, 900)"
proof -
  have p1: "cachedToken cachedWorld = Some ''T''" by (simp add: example_defs)
  have p2: "''T'' \<noteq> []" by simp
  have p3: "clock cachedWorld < cachedTokenExpiry cachedWorld" by (simp add: example_defs)
  have p4: "clock cachedWorld - lastRefreshTime cachedWorld < 5 * 60 * 1000"
    by (simp add: example_defs)
  from cache_fast_path[OF p1 p2 p3 p4, of signedOutEnv] p1 p3 p4 show ?thesis
    by (simp add: example_defs cacheOf_def)
qed

section \<open>The fetch wrapper: properties\<close>

lemma doFetch_effects:
  "trace (snd (doFetch env req w)) = trace w @ [Fetch req]
   \<and> lastRequestTime (snd (doFetch env req w)) = lastRequestTime w
   \<and> cacheOf (snd (doFetch env req w)) = cacheOf w
   \<and> clock w \<le> clock (snd (doFetch env req w))"
  by (simp add: doFetch_def advance_def emit_def cacheOf_def split: prod.splits)


lemma dispatch_auth_failure:
  assumes f: "fetch env (trace w) (request input init headers) = (lat, Some response)"
    and st: "status response = 401 \<or> status response = 403"
    and g: "getValidAccessToken env (resetTokenCache (advance lat (emit (Fetch (request input init headers)) w)))
              = (retried, w2)"
  shows "dispatch env input init headers accessTok w =
     (case retried of
        None \<Rightarrow> (Inr response, w2)
      | Some t \<Rightarrow> if t \<noteq> [] \<and> t \<noteq> accessTok
                  then doFetch env (request input init (headers_set ''authorization'' (bearer t) headers)) w2
                  else (Inr response, w2))"
proof -
  have n: "status response \<noteq> 429" using st by auto
  show ?thesis
    using f st g n
    by (auto simp: dispatch_def doFetch_def request_def Let_def split: option.splits)
qed

text \<open>
  C5.  When the response to a dispatched request has status 401 or 403, the token cache is
  invalidated and a token is resolved again from the reset cache.  If that token is present
  (not null, not empty) and differs from the token of the request, the request is sent once
  more with the new \<^verbatim>\<open>Authorization\<close> header and the answer to that second request
  is the result: two requests in all.  Otherwise the first response is the result and one
  request was sent.  Either way the wrapper does not sleep and does not touch the queue's
  last dispatch time.  A resolved token is never the empty string when no refresh grants
  one, so that "present" is then "not null".
\<close>

theorem auth_failure_retries_once:
  assumes "fetch env (trace w) (request input init headers) = (lat, Some response)"
    and "status response = 401 \<or> status response = 403"
    and "w1 = resetTokenCache (advance lat (emit (Fetch (request input init headers)) w))"
    and "getValidAccessToken env w1 = (retried, w2)"
    and "dispatch env input init headers accessTok w = (result, w')"
  shows
   "cacheOf w1 = (None, 0, 0)
    \<and> (truthy_str retried \<and> retried \<noteq> Some accessTok \<longrightarrow>
         (\<exists>t. retried = Some t
            \<and> (result, w') = doFetch env
                 (request input init (headers_set ''authorization'' (bearer t) headers)) w2
            \<and> fetches (since w w') =
                 [request input init headers,
                  request input init (headers_set ''authorization'' (bearer t) headers)]))
    \<and> (\<not> (truthy_str retried \<and> retried \<noteq> Some accessTok) \<longrightarrow>
         result = Inr response \<and> w' = w2
         \<and> fetches (since w w') = [request input init headers])
    \<and> sleeps (since w w') = []
    \<and> lastRequestTime w' = lastRequestTime w
    \<and> ((\<forall>h tok c. snd (refreshAccessToken env h tok) = Refreshed c \<longrightarrow> accessToken c \<noteq> [])
         \<longrightarrow> truthy_str retried = (retried \<noteq> None))"
proof -
  let ?req = "request input init headers"
  let ?wf = "advance lat (emit (Fetch ?req) w)"
  have c1: "cacheOf w1 = (None, 0, 0)"
    by (simp add: assms(3) cacheOf_def resetTokenCache_def)
  have tw1: "trace w1 = trace w @ [Fetch ?req]" "lastRequestTime w1 = lastRequestTime w"
    by (simp_all add: assms(3) resetTokenCache_def advance_def emit_def)
  from getValidAccessToken_effects[of env w1] assms(4) obtain evs where
    e: "trace w2 = trace w1 @ evs" "fetches evs = []" "sleeps evs = []"
       "lastRequestTime w2 = lastRequestTime w1"
    by auto
  have tw2: "trace w2 = trace w @ Fetch ?req # evs" using e(1) tw1 by simp
  have ne: "(\<forall>h tok c. snd (refreshAccessToken env h tok) = Refreshed c \<longrightarrow> accessToken c \<noteq> [])
         \<longrightarrow> truthy_str retried = (retried \<noteq> None)"
  proof
    assume "\<forall>h tok c. snd (refreshAccessToken env h tok) = Refreshed c \<longrightarrow> accessToken c \<noteq> []"
    from resolved_token_nonempty[OF this, of w1] assms(4) have "retried \<noteq> Some []" by simp
    then show "truthy_str retried = (retried \<noteq> None)"
      by (auto simp: truthy_str_def split: option.splits)
  qed
  note D = dispatch_auth_failure[OF assms(1) assms(2) assms(4)[unfolded assms(3)], of accessTok]
  have main: "(truthy_str retried \<and> retried \<noteq> Some accessTok \<longrightarrow>
         (\<exists>t. retried = Some t
            \<and> (result, w') = doFetch env
                 (request input init (headers_set ''authorization'' (bearer t) headers)) w2
            \<and> fetches (since w w') =
                 [request input init headers,
                  request input init (headers_set ''authorization'' (bearer t) headers)]))
    \<and> (\<not> (truthy_str retried \<and> retried \<noteq> Some accessTok) \<longrightarrow>
         result = Inr response \<and> w' = w2
         \<and> fetches (since w w') = [request input init headers])
    \<and> sleeps (since w w') = []
    \<and> lastRequestTime w' = lastRequestTime w"
  proof (cases "truthy_str retried \<and> retried \<noteq> Some accessTok")
    case True
    then obtain t where t: "retried = Some t" "t \<noteq> []" "t \<noteq> accessTok"
      by (auto simp: truthy_str_def split: option.splits)
    let ?req2 = "request input init (headers_set ''authorization'' (bearer t) headers)"
    have r: "(result, w') = doFetch env ?req2 w2"
      using D assms(5) t by simp
    then have w': "w' = snd (doFetch env ?req2 w2)" by (metis snd_conv)
    have "trace w' = trace w @ Fetch ?req # evs @ [Fetch ?req2]"
      using doFetch_effects[of env ?req2 w2] tw2 w' by simp
    then have "since w w' = Fetch ?req # evs @ [Fetch ?req2]" by (simp add: since_def)
    then have fs: "fetches (since w w') = [?req, ?req2]" "sleeps (since w w') = []"
      using e(2,3) by (simp_all add: fetches_append sleeps_append)
    have "lastRequestTime w' = lastRequestTime w"
      using doFetch_effects[of env ?req2 w2] w' e(4) tw1(2) by simp
    with True t r fs show ?thesis by simp
  next
    case False
    have r: "dispatch env input init headers accessTok w = (Inr response, w2)"
      using D False by (auto simp: truthy_str_def split: option.splits)
    with assms(5) have eq: "result = Inr response" "w' = w2" by simp_all
    have "since w w' = Fetch ?req # evs" using tw2 eq by (simp add: since_def)
    then have fs: "fetches (since w w') = [?req]" "sleeps (since w w') = []"
      using e(2,3) by simp_all
    have "lastRequestTime w' = lastRequestTime w"
      using eq e(4) tw1(2) by simp
    with False eq fs show ?thesis by simp
  qed
  from c1 main ne show ?thesis by blast
qed

text \<open>
  A witness for C5: the request carries \<open>T1\<close>, the server answers 401, the host has
  \<open>T2\<close> by then, and the one retry carries \<open>Bearer T2\<close> and is answered 200.
\<close>

theorem auth_failure_retries_once_witness:
  "fetch rotatedEnv (trace busyWorld) (request ''url'' ''body'' [(''authorization'', ''Bearer T1'')])
     = (0, Some unauthorized)
   \<and> status unauthorized = 401
   \<and> fst (getValidAccessToken rotatedEnv (resetTokenCache (advance 0
        (emit (Fetch (request ''url'' ''body'' [(''authorization'', ''Bearer T1'')])) busyWorld))))
      = Some ''T2''
   \<and> fst (dispatch rotatedEnv ''url'' ''body'' [(''authorization'', ''Bearer T1'')] ''T1'' busyWorld)
      = Inr okResponse
   \<and> fetches (since busyWorld
        (snd (dispatch rotatedEnv ''url'' ''body'' [(''authorization'', ''Bearer T1'')] ''T1'' busyWorld)))
      = [request ''url'' ''body'' [(''authorization'', ''Bearer T1'')],
         request ''url'' ''body'' [(''authorization'', ''Bearer T2'')]]"
proof -
  let ?h = "[(''authorization'', ''Bearer T1'')]"
  let ?w1 = "resetTokenCache (advance 0 (emit (Fetch (request ''url'' ''body'' ?h)) busyWorld))"
  let ?d = "dispatch rotatedEnv ''url'' ''body'' ?h ''T1'' busyWorld"
  have p1: "fetch rotatedEnv (trace busyWorld) (request ''url'' ''body'' ?h) = (0, Some unauthorized)"
    by (simp add: example_defs)
  have p2: "status unauthorized = 401 \<or> status unauthorized = 403"
    by (simp add: unauthorized_def)
  have p4: "getValidAccessToken rotatedEnv ?w1
      = (fst (getValidAccessToken rotatedEnv ?w1), snd (getValidAccessToken rotatedEnv ?w1))"
    by simp
  have p5: "?d = (fst ?d, snd ?d)" by simp
  have q: "fst (getValidAccessToken rotatedEnv ?w1) = Some ''T2''"
    by (simp add: example_defs eval_defs)
  note T = auth_failure_retries_once[OF p1 p2 refl p4 p5]
  have "truthy_str (fst (getValidAccessToken rotatedEnv ?w1))
      \<and> fst (getValidAccessToken rotatedEnv ?w1) \<noteq> Some ''T1''"
    by (simp add: q truthy_str_def)
  with T have "\<exists>t. fst (getValidAccessToken rotatedEnv ?w1) = Some t
      \<and> (fst ?d, snd ?d) = doFetch rotatedEnv
           (request ''url'' ''body'' (headers_set ''authorization'' (bearer t) ?h))
           (snd (getValidAccessToken rotatedEnv ?w1))
      \<and> fetches (since busyWorld (snd ?d)) =
           [request ''url'' ''body'' ?h,
            request ''url'' ''body'' (headers_set ''authorization'' (bearer t) ?h)]"
    by blast
  then have r: "(fst ?d, snd ?d) = doFetch rotatedEnv
           (request ''url'' ''body'' (headers_set ''authorization'' (bearer ''T2'') ?h))
           (snd (getValidAccessToken rotatedEnv ?w1))"
    and fs: "fetches (since busyWorld (snd ?d)) =
           [request ''url'' ''body'' ?h,
            request ''url'' ''body'' (headers_set ''authorization'' (bearer ''T2'') ?h)]"
    using q by auto
  have "fst (doFetch rotatedEnv
           (request ''url'' ''body'' (headers_set ''authorization'' (bearer ''T2'') ?h))
           (snd (getValidAccessToken rotatedEnv ?w1))) = Inr okResponse"
    by (simp add: example_defs eval_defs doFetch_def)
  with r have "fst ?d = Inr okResponse" by (metis fst_conv)
  with p1 q fs show ?thesis
    by (simp add: unauthorized_def bearer_def)
qed

text \<open>
  What the 429 branch does: the delay is the \<^verbatim>\<open>Retry-After\<close> value parsed as an
  integer, times 1000; a missing or empty header gives 60 seconds; the same request is
  then sent once more and its answer returned; the queue's last dispatch time is not
  touched.  The retry waits that long when the delay fits the timer.
\<close>

lemma dispatch_rate_limited:
  assumes f: "fetch env (trace w) (request input init headers) = (lat, Some response)"
    and st: "status response = 429"
  shows "dispatch env input init headers accessTok w =
      doFetch env (request input init headers)
        (sleep (map_option (\<lambda>n. n * 1000)
                  (parseInt (str_or (headers_get ''retry-after'' (resp_headers response)) ''60'')))
               (advance lat (emit (Fetch (request input init headers)) w)))"
  using f st
  by (simp add: dispatch_def doFetch_def request_def Let_def)

lemma parseInt_60: "parseInt ''60'' = Some 60"
  by (simp add: parseInt_def isWhiteSpace_def isDigit_def digitValue_def Let_def)

lemma rate_limit_single_retry:
  assumes "fetch env (trace w) (request input init headers) = (lat, Some response)"
    and "status response = 429"
    and "dispatch env input init headers accessTok w = (result, w')"
    and "retryAfter = headers_get ''retry-after'' (resp_headers response)"
  shows
   "(\<exists>d. since w w' = [Fetch (request input init headers), Sleep d, Fetch (request input init headers)]
        \<and> (\<not> truthy_str retryAfter \<longrightarrow> d = Some 60000)
        \<and> (\<forall>v n. retryAfter = Some v \<and> v \<noteq> [] \<and> parseInt v = Some n \<longrightarrow>
              d = Some (n * 1000)
              \<and> (0 \<le> n \<and> n * 1000 \<le> TIMEOUT_MAX \<longrightarrow> clock w + n * 1000 \<le> clock w')))
    \<and> lastRequestTime w' = lastRequestTime w"
proof -
  let ?req = "request input init headers"
  let ?d = "map_option (\<lambda>n. n * 1000) (parseInt (str_or retryAfter ''60''))"
  let ?w3 = "sleep ?d (advance lat (emit (Fetch ?req) w))"
  have D: "(result, w') = doFetch env ?req ?w3"
    using dispatch_rate_limited[OF assms(1) assms(2), of accessTok] assms(3) assms(4) by simp
  then have w': "w' = snd (doFetch env ?req ?w3)" by (metis snd_conv)
  have t3: "trace ?w3 = trace w @ [Fetch ?req, Sleep ?d]"
    "lastRequestTime ?w3 = lastRequestTime w"
    by (simp_all add: sleep_def advance_def emit_def)
  have c3: "clock ?w3 = clock w + int lat
      + (case ?d of None \<Rightarrow> 0 | Some x \<Rightarrow> if TIMEOUT_MAX < x then 1 else max 0 x)"
    by (simp add: sleep_def advance_def emit_def)
  have s: "since w w' = [Fetch ?req, Sleep ?d, Fetch ?req]"
    using doFetch_effects[of env ?req ?w3] w' t3 by (simp add: since_def)
  have l: "lastRequestTime w' = lastRequestTime w"
    using doFetch_effects[of env ?req ?w3] w' t3 by simp
  have a: "\<not> truthy_str retryAfter \<longrightarrow> ?d = Some 60000"
    by (auto simp: truthy_str_def str_or_def parseInt_60 split: option.splits)
  have b: "\<forall>v n. retryAfter = Some v \<and> v \<noteq> [] \<and> parseInt v = Some n \<longrightarrow>
              ?d = Some (n * 1000)
              \<and> (0 \<le> n \<and> n * 1000 \<le> TIMEOUT_MAX \<longrightarrow> clock w + n * 1000 \<le> clock w')"
  proof (intro allI impI)
    fix v n assume p: "retryAfter = Some v \<and> v \<noteq> [] \<and> parseInt v = Some n"
    then have d: "?d = Some (n * 1000)" by (simp add: str_or_def)
    have "0 \<le> n \<and> n * 1000 \<le> TIMEOUT_MAX \<longrightarrow> clock w + n * 1000 \<le> clock ?w3"
      using c3 by (simp add: d)
    moreover have "clock ?w3 \<le> clock w'"
      using doFetch_effects[of env ?req ?w3] w' by simp
    ultimately show "?d = Some (n * 1000)
        \<and> (0 \<le> n \<and> n * 1000 \<le> TIMEOUT_MAX \<longrightarrow> clock w + n * 1000 \<le> clock w')"
      using d by auto
  qed
  from s a b l show ?thesis by blast
qed

text \<open>
  The request queue writes its last dispatch time once, when it hands the task over; the
  task, with its retries, leaves it alone.  Without a token the wrapper throws before any
  request.
\<close>

lemma dispatch_keeps_lastRequestTime:
  "lastRequestTime (snd (dispatch env input init headers accessTok w)) = lastRequestTime w"
proof -
  let ?req = "request input init headers"
  obtain lat ans where f: "fetch env (trace w) ?req = (lat, ans)" by force
  let ?w1 = "advance lat (emit (Fetch ?req) w)"
  have l1: "lastRequestTime ?w1 = lastRequestTime w" by (simp add: advance_def emit_def)
  show ?thesis
  proof (cases ans)
    case None
    then show ?thesis
      using f by (simp add: dispatch_def doFetch_def request_def advance_def emit_def)
  next
    case (Some response)
    note f' = f[unfolded Some]
    consider (auth) "status response = 401 \<or> status response = 403"
      | (rate) "status response = 429"
      | (other) "status response \<noteq> 401" "status response \<noteq> 403" "status response \<noteq> 429"
      by blast
    then show ?thesis
    proof cases
      case auth
      obtain retried w2 where g: "getValidAccessToken env (resetTokenCache ?w1) = (retried, w2)"
        by force
      have l2: "lastRequestTime w2 = lastRequestTime w"
        using getValidAccessToken_effects[of env "resetTokenCache ?w1"] g l1
        by (auto simp: resetTokenCache_def)
      show ?thesis
        using dispatch_auth_failure[OF f' auth g, of accessTok] l2
          doFetch_effects[of env _ w2]
        by (auto split: option.splits)
    next
      case rate
      show ?thesis
        using dispatch_rate_limited[OF f' rate, of accessTok] doFetch_effects[of env ?req]
        by (simp add: sleep_def advance_def emit_def)
    next
      case other
      then show ?thesis
        using f' by (simp add: dispatch_def doFetch_def request_def advance_def emit_def)
    qed
  qed
qed

lemma qwenFetch_without_token:
  assumes "\<not> truthy_str (fst (getValidAccessToken env w))"
  shows "fst (qwenFetch env input init initHeaders w) = Inl NoValidAccessToken
   \<and> fetches (since w (snd (qwenFetch env input init initHeaders w))) = []"
proof -
  obtain tok w1 where g: "getValidAccessToken env w = (tok, w1)" by force
  with assms have n: "\<not> truthy_str tok" by simp
  obtain evs where e: "trace w1 = trace w @ evs" "fetches evs = []"
    using getValidAccessToken_effects[of env w] g by auto
  show ?thesis
    using n e by (simp add: qwenFetch_def g since_def)
qed

lemma qwenFetch_dispatch_time:
  assumes "truthy_str (fst (getValidAccessToken env w))"
    and "w1 = snd (getValidAccessToken env w)"
    and "waitTime = max 0 (1000 - (clock w1 - lastRequestTime w1)) + int (jitter env (trace w1))"
    and "waitTime \<le> TIMEOUT_MAX"
  shows "lastRequestTime (snd (qwenFetch env input init initHeaders w)) = clock w1 + waitTime"
proof -
  have w: "0 \<le> waitTime" using assms(3) by simp
  obtain tok where g: "getValidAccessToken env w = (tok, w1)"
    using assms(2) by (metis prod.collapse)
  with assms(1) have t: "truthy_str tok" by simp
  show ?thesis
    using t w assms(3) assms(4)
    by (cases "waitTime > 0")
       (simp_all add: qwenFetch_def g enqueue_def Let_def dispatch_keeps_lastRequestTime
          MIN_INTERVAL_def sleep_def emit_def)
qed

lemma parseInt_http_date: "parseInt ''Wed, 21 Oct 2015 07:28:00 GMT'' = None"
  by (simp add: parseInt_def isWhiteSpace_def isDigit_def Let_def)

text \<open>
  C6 at a \<^verbatim>\<open>Retry-After\<close> header in its HTTP-date form, which
  \<^verbatim>\<open>Number.parseInt\<close> cannot read: the delay handed to the timer is \<^verbatim>\<open>NaN\<close>, not
  60000, and the retry goes out without any wait.
\<close>

theorem retry_after_http_date_no_wait:
  "status (rateLimited (Some ''Wed, 21 Oct 2015 07:28:00 GMT'')) = 429
   \<and> fst (dispatch httpDateEnv ''url'' ''body'' [] ''T1'' busyWorld) = Inr okResponse
   \<and> since busyWorld (snd (dispatch httpDateEnv ''url'' ''body'' [] ''T1'' busyWorld))
       = [Fetch (request ''url'' ''body'' []), Sleep None, Fetch (request ''url'' ''body'' [])]
   \<and> clock (snd (dispatch httpDateEnv ''url'' ''body'' [] ''T1'' busyWorld)) = clock busyWorld"
  by (simp add: example_defs dispatch_def doFetch_def sleep_def advance_def emit_def since_def
      str_or_def parseInt_http_date Let_def)

section \<open>The request queue: properties\<close>






lemma gaps_Cons: "gaps (a # b # r) = (b - a) # gaps (b # r)"
  by simp






section \<open>The device-flow polling loop: properties\<close>

lemma polls_append: "polls (xs @ ys) = polls xs + polls ys"
  by (induction xs rule: polls.induct) auto

lemma sleeps_rounds: "sleeps (rounds n d @ es) = replicate n (Some d) @ sleeps es"
  by (induction n) auto

lemma polls_rounds: "polls (rounds n d @ es) = n + polls es"
  by (induction n) auto

lemma fileWrites_rounds: "fileWrites (rounds n d @ es) = fileWrites es"
  by (induction n) auto

lemma pollLoop_run:
  assumes "polls (trace w) + n = N"
    and "\<forall>h. polls h < N \<longrightarrow> pendingOutcome (snd (pollDeviceToken env h))"
    and "\<forall>h. polls h = N \<longrightarrow> snd (pollDeviceToken env h) = TokenResponse c"
    and "\<forall>h. fst (pollDeviceToken env h) \<le> L"
    and "clock w - startTime + int n * (int interval + 3000 + int L) < timeoutMs"
    and "int interval + 3000 \<le> TIMEOUT_MAX"
    and "\<not> writeFails env (trace w @ rounds (Suc n) (int interval + 3000))"
  shows "fst (pollLoop env startTime timeoutMs interval w) =
           AuthSuccess (accessToken c) (case refreshToken c of None \<Rightarrow> [] | Some r \<Rightarrow> r)
             (num_or (expiryDate c) (clock (snd (pollLoop env startTime timeoutMs interval w)) + 3600000))
       \<and> trace (snd (pollLoop env startTime timeoutMs interval w)) =
           trace w @ rounds (Suc n) (int interval + 3000) @ [WriteFile (saveCredentials c)]
       \<and> credFile (snd (pollLoop env startTime timeoutMs interval w)) = saveCredentials c
       \<and> clock w + int (Suc n) * (int interval + 3000)
            \<le> clock (snd (pollLoop env startTime timeoutMs interval w))
       \<and> clock (snd (pollLoop env startTime timeoutMs interval w))
            \<le> clock w + int (Suc n) * (int interval + 3000 + int L)"
  using assms
proof (induction n arbitrary: w)
  case 0
  let ?w1 = "sleep (Some (int interval + POLLING_MARGIN_MS)) w"
  have fit: "\<not> TIMEOUT_MAX < int interval + 3000" using "0.prems"(6) by simp
  have t1: "trace ?w1 = trace w @ [Sleep (Some (int interval + 3000))]"
    by (simp add: sleep_def emit_def POLLING_MARGIN_MS_def)
  have "polls (trace ?w1) = N" using "0.prems"(1) by (simp add: t1 polls_append)
  then have s: "snd (pollDeviceToken env (trace ?w1)) = TokenResponse c"
    using "0.prems"(3) by blast
  have g: "clock w - startTime < timeoutMs" using "0.prems"(5) by simp
  have l: "fst (pollDeviceToken env (trace ?w1)) \<le> L" using "0.prems"(4) by blast
  let ?w2 = "advance (fst (pollDeviceToken env (trace ?w1))) (emit Poll ?w1)"
  let ?w3 = "saveCredentials_io c ?w2"
  have t2: "trace ?w2 = trace w @ [Sleep (Some (int interval + 3000)), Poll]"
    by (simp add: sleep_def emit_def advance_def POLLING_MARGIN_MS_def)
  have wr: "\<not> writeFails env (trace ?w2)" using "0.prems"(7) unfolding t2 by simp
  have sv: "trySaveCredentials env c ?w2 = (True, ?w3)"
    using wr by (simp add: trySaveCredentials_def)
  have run: "pollLoop env startTime timeoutMs interval w =
      (AuthSuccess (accessToken c) (case refreshToken c of None \<Rightarrow> [] | Some r \<Rightarrow> r)
         (num_or (expiryDate c) (clock ?w3 + 3600000)), ?w3)"
    by (subst pollLoop.simps) (simp add: g s sv Let_def)
  have t3: "trace ?w3 = trace w @ [Sleep (Some (int interval + 3000)), Poll, WriteFile (saveCredentials c)]"
    by (simp add: sleep_def emit_def advance_def saveCredentials_io_def POLLING_MARGIN_MS_def)
  have f3: "credFile ?w3 = saveCredentials c"
    by (simp add: sleep_def emit_def advance_def saveCredentials_io_def)
  have c3: "clock ?w3 = clock w + (int interval + 3000) + int (fst (pollDeviceToken env (trace ?w1)))"
    using fit
    by (simp add: sleep_def emit_def advance_def saveCredentials_io_def POLLING_MARGIN_MS_def)
  show ?case
    unfolding run using l by (simp add: t3 f3 c3)
next
  case (Suc n)
  let ?w1 = "sleep (Some (int interval + POLLING_MARGIN_MS)) w"
  let ?lat = "fst (pollDeviceToken env (trace ?w1))"
  let ?w2 = "advance ?lat (emit Poll ?w1)"
  have fit: "\<not> TIMEOUT_MAX < int interval + 3000" using Suc.prems(6) by simp
  have t1: "trace ?w1 = trace w @ [Sleep (Some (int interval + 3000))]"
    by (simp add: sleep_def emit_def POLLING_MARGIN_MS_def)
  have t2: "trace ?w2 = trace w @ [Sleep (Some (int interval + 3000)), Poll]"
    by (simp add: sleep_def emit_def advance_def POLLING_MARGIN_MS_def)
  have c2: "clock ?w2 = clock w + (int interval + 3000) + int ?lat"
    using fit by (simp add: sleep_def emit_def advance_def POLLING_MARGIN_MS_def)
  have l: "?lat \<le> L" using Suc.prems(4) by blast
  have "polls (trace ?w1) < N" using Suc.prems(1) by (simp add: t1 polls_append)
  then have p: "pendingOutcome (snd (pollDeviceToken env (trace ?w1)))"
    using Suc.prems(2) by blast
  have nn: "0 \<le> int (Suc n) * (int interval + 3000 + int L)" by simp
  have g: "clock w - startTime < timeoutMs"
    using Suc.prems(5) nn by linarith
  have step: "pollLoop env startTime timeoutMs interval w = pollLoop env startTime timeoutMs interval ?w2"
    using p by (subst pollLoop.simps) (auto simp: g Let_def pendingOutcome_def)
  have a1: "polls (trace ?w2) + n = N" using Suc.prems(1) by (simp add: t2 polls_append)
  have a5: "clock ?w2 - startTime + int n * (int interval + 3000 + int L) < timeoutMs"
    using Suc.prems(5) l unfolding c2 by (simp add: algebra_simps)
  have a7: "\<not> writeFails env (trace ?w2 @ rounds (Suc n) (int interval + 3000))"
    using Suc.prems(7) unfolding t2 by simp
  note IH = Suc.IH[OF a1 Suc.prems(2) Suc.prems(3) Suc.prems(4) a5 Suc.prems(6) a7]
  have e1: "clock w + int (Suc (Suc n)) * (int interval + 3000)
      \<le> clock ?w2 + int (Suc n) * (int interval + 3000)"
    unfolding c2 by (simp add: algebra_simps)
  have e2: "clock ?w2 + int (Suc n) * (int interval + 3000 + int L)
      \<le> clock w + int (Suc (Suc n)) * (int interval + 3000 + int L)"
    unfolding c2 using l by (simp add: algebra_simps)
  have tr: "trace ?w2 @ rounds (Suc n) (int interval + 3000) @ [WriteFile (saveCredentials c)]
      = trace w @ rounds (Suc (Suc n)) (int interval + 3000) @ [WriteFile (saveCredentials c)]"
    unfolding t2 by simp
  from IH e1 e2 show ?case
    unfolding step tr by linarith
qed

lemma pollLoop_timeout:
  "timeoutMs \<le> clock w - startTime \<Longrightarrow> pollLoop env startTime timeoutMs interval w = (AuthFailed, w)"
  by (subst pollLoop.simps) simp

lemma pendingEnv_pending:
  "\<forall>h. polls h < polls (trace signedOutWorld) + 3 \<longrightarrow> pendingOutcome (snd (pollDeviceToken pendingEnv h))"
  by (auto simp: pendingEnv_def example_defs pendingOutcome_def nth_Cons' )

lemma pendingEnv_success:
  "\<forall>h. polls h = polls (trace signedOutWorld) + 3 \<longrightarrow>
       snd (pollDeviceToken pendingEnv h) = TokenResponse (cred ''A'' (Some ''R'') None)"
  by (auto simp: pendingEnv_def example_defs)

lemma pendingEnv_instant: "\<forall>h. fst (pollDeviceToken pendingEnv h) \<le> 0"
  by (simp add: pendingEnv_def example_defs)

lemma pendingEnv_writable: "\<not> writeFails pendingEnv h"
  by (simp add: pendingEnv_def example_defs)

lemmas poll_eval = callback_def trySaveCredentials_def saveCredentials_io_def saveCredentials_def
  sleep_def advance_def emit_def POLLING_MARGIN_MS_def TIMEOUT_MAX_def num_or_def truthy_num_def
  str_or_def truthy_str_def Let_def

lemma onePending_run:
  "fst (callback onePendingEnv 10 signedOutWorld) = AuthSuccess ''A'' ''R'' 3617000
   \<and> clock (snd (callback onePendingEnv 10 signedOutWorld)) = 17000"
  by (simp add: poll_eval example_defs pollLoop.simps)

lemma pendingReadOnly_run:
  "fst (callback pendingReadOnlyEnv 1800 signedOutWorld) = AuthFailed"
  by (simp add: poll_eval example_defs pollLoop.simps)

text \<open>
  C8, as stated, fails, in three ways.  With three pending polls and then a success, and
  polls that take no time, the successful exchange happens 4 \<times> (5 + 3) = 32 seconds after
  the start, not 3 \<times> (5 + 3) = 24: the loop sleeps before every poll, the successful one
  included.  With \<^verbatim>\<open>expires_in = 10\<close>, one pending poll and then a success, the loop
  ends with success 16 seconds after the start: the deadline is looked at only before a
  sleep.  And when the credentials file cannot be written, the run of three pending polls
  and a success ends as failed.
\<close>

theorem device_flow_elapsed_four_rounds:
  "fst (callback pendingEnv 1800 signedOutWorld) = AuthSuccess ''A'' ''R'' 3633000
   \<and> clock (snd (callback pendingEnv 1800 signedOutWorld)) - clock signedOutWorld = 32000
   \<and> (32000 :: int) \<noteq> 3 * (5000 + 3000)
   \<and> fst (callback onePendingEnv 10 signedOutWorld) = AuthSuccess ''A'' ''R'' 3617000
   \<and> clock (snd (callback onePendingEnv 10 signedOutWorld)) - clock signedOutWorld = 16000
   \<and> (10 :: int) * 1000 < 16000
   \<and> fst (callback pendingReadOnlyEnv 1800 signedOutWorld) = AuthFailed"
proof -
  have a1: "polls (trace signedOutWorld) + 3 = polls (trace signedOutWorld) + 3" by simp
  have a5: "clock signedOutWorld - clock signedOutWorld + int 3 * (int 5000 + 3000 + int 0) < 1800 * 1000"
    by simp
  have a6: "int 5000 + 3000 \<le> TIMEOUT_MAX" by (simp add: TIMEOUT_MAX_def)
  note R = pollLoop_run[OF a1 pendingEnv_pending pendingEnv_success pendingEnv_instant a5 a6
      pendingEnv_writable]
  have c0: "clock signedOutWorld = 1000" by (simp add: example_defs)
  from R have c: "clock (snd (callback pendingEnv 1800 signedOutWorld)) = 33000"
    unfolding c0 callback_def by simp
  have p1: "fst (callback pendingEnv 1800 signedOutWorld) = AuthSuccess ''A'' ''R'' 3633000
     \<and> clock (snd (callback pendingEnv 1800 signedOutWorld)) - clock signedOutWorld = 32000"
    using R unfolding callback_def c[unfolded callback_def] c0 by (simp add: cred_def num_or_def)
  have p2: "fst (callback onePendingEnv 10 signedOutWorld) = AuthSuccess ''A'' ''R'' 3617000
     \<and> clock (snd (callback onePendingEnv 10 signedOutWorld)) - clock signedOutWorld = 16000"
    using onePending_run unfolding c0 by simp
  from p1 p2 pendingReadOnly_run show ?thesis by simp
qed

text \<open>
  C8, amended.  With the interval of 5 seconds, the margin of 3 seconds and
  \<^verbatim>\<open>expires_in = 1800\<close>: when the first three polls report
  \<^verbatim>\<open>authorization_pending\<close>, the fourth succeeds, every poll is answered within
  \<open>L\<close> milliseconds and the write of the credentials file does not throw, the loop ends
  with success after four sleeps of 8 seconds each (the interval is never changed) and
  four polls, the credential is saved, and the time from the start to the successful
  exchange is between 4 \<times> (5 + 3) seconds and that plus 4 \<times> \<open>L\<close>.  The deadline is
  looked at only at the start of an iteration: an iteration that starts when the elapsed
  time has reached \<^verbatim>\<open>expires_in\<close> ends the loop as failed, with no further sleep or
  poll.
\<close>

theorem device_flow_three_pending:
  assumes "\<forall>h. polls h < polls (trace w) + 3 \<longrightarrow> pendingOutcome (snd (pollDeviceToken env h))"
    and "\<forall>h. polls h = polls (trace w) + 3 \<longrightarrow> snd (pollDeviceToken env h) = TokenResponse c"
    and "\<forall>h. fst (pollDeviceToken env h) \<le> L" and "3 * (5000 + 3000 + int L) < 1800 * 1000"
    and "\<not> writeFails env (trace w @ rounds 4 (5000 + 3000))"
    and "callback env 1800 w = (result, w')"
  shows "result = AuthSuccess (accessToken c) (case refreshToken c of None \<Rightarrow> [] | Some r \<Rightarrow> r)
                    (case expiryDate c of
                       None \<Rightarrow> clock w' + 3600000
                     | Some x \<Rightarrow> if x = 0 then clock w' + 3600000 else x)
       \<and> sleeps (since w w') = replicate 4 (Some (5000 + 3000))
       \<and> polls (since w w') = 4
       \<and> fileWrites (since w w') = [writtenRecord c]
       \<and> credFile w' = writtenRecord c
       \<and> 4 * (5000 + 3000) \<le> clock w' - clock w
       \<and> clock w' - clock w \<le> 4 * (5000 + 3000 + int L)
       \<and> (\<forall>startTime timeoutMs interval w0.
             timeoutMs \<le> clock w0 - startTime
             \<longrightarrow> pollLoop env startTime timeoutMs interval w0 = (AuthFailed, w0))"
proof -
  have a1: "polls (trace w) + 3 = polls (trace w) + 3" by simp
  have a5: "clock w - clock w + int 3 * (int 5000 + 3000 + int L) < 1800 * 1000"
    using assms(4) by simp
  have a6: "int 5000 + 3000 \<le> TIMEOUT_MAX" by (simp add: TIMEOUT_MAX_def)
  have a7: "\<not> writeFails env (trace w @ rounds (Suc 3) (int 5000 + 3000))"
    using assms(5) by (simp add: numeral_eq_Suc)
  note R = pollLoop_run[OF a1 assms(1) assms(2) assms(3) a5 a6 a7]
  have cb: "pollLoop env (clock w) (1800 * 1000) 5000 w = (result, w')"
    using assms(6) by (simp add: callback_def)
  from R have tr: "trace w' = trace w @ rounds (Suc 3) (int 5000 + 3000) @ [WriteFile (saveCredentials c)]"
    unfolding cb by simp
  then have s: "since w w' = rounds (Suc 3) (int 5000 + 3000) @ [WriteFile (saveCredentials c)]"
    by (simp add: since_def)
  have s1: "sleeps (since w w') = replicate 4 (Some (5000 + 3000))"
    unfolding s sleeps_rounds by (simp add: numeral_eq_Suc)
  have s2: "polls (since w w') = 4"
    unfolding s polls_rounds by simp
  have s3: "fileWrites (since w w') = [writtenRecord c]"
    unfolding s fileWrites_rounds by (simp add: saveCredentials_written)
  have d: "\<forall>startTime timeoutMs interval w0.
             timeoutMs \<le> clock w0 - startTime
             \<longrightarrow> pollLoop env startTime timeoutMs interval w0 = (AuthFailed, w0)"
    using pollLoop_timeout by blast
  have main: "result = AuthSuccess (accessToken c) (case refreshToken c of None \<Rightarrow> [] | Some r \<Rightarrow> r)
                    (case expiryDate c of
                       None \<Rightarrow> clock w' + 3600000
                     | Some x \<Rightarrow> if x = 0 then clock w' + 3600000 else x)
       \<and> credFile w' = writtenRecord c
       \<and> 4 * (5000 + 3000) \<le> clock w' - clock w
       \<and> clock w' - clock w \<le> 4 * (5000 + 3000 + int L)"
    using R unfolding cb by (simp add: saveCredentials_written num_or_cases)
  from main s1 s2 s3 d show ?thesis by blast
qed

text \<open>
  A witness for C8: the scripted device flow, started at time 1000 with no credentials
  file; it ends at time 33000 and leaves the new credential in the file.
\<close>

theorem device_flow_three_pending_witness:
  "fst (callback pendingEnv 1800 signedOutWorld) = AuthSuccess ''A'' ''R'' 3633000
   \<and> sleeps (since signedOutWorld (snd (callback pendingEnv 1800 signedOutWorld)))
       = [Some 8000, Some 8000, Some 8000, Some 8000]
   \<and> polls (since signedOutWorld (snd (callback pendingEnv 1800 signedOutWorld))) = 4
   \<and> credFile signedOutWorld = NoFile
   \<and> credFile (snd (callback pendingEnv 1800 signedOutWorld)) = stored (Some ''A'') (Some ''R'') None
   \<and> clock (snd (callback pendingEnv 1800 signedOutWorld)) - clock signedOutWorld = 4 * 8000"
proof -
  have a4: "3 * (5000 + 3000 + int 0) < 1800 * 1000" by simp
  have a5: "callback pendingEnv 1800 signedOutWorld
      = (fst (callback pendingEnv 1800 signedOutWorld), snd (callback pendingEnv 1800 signedOutWorld))"
    by simp
  note T = device_flow_three_pending[OF pendingEnv_pending pendingEnv_success pendingEnv_instant a4
      pendingEnv_writable a5]
  have c0: "clock signedOutWorld = 1000" by (simp add: example_defs)
  have f0: "credFile signedOutWorld = NoFile" by (simp add: example_defs)
  from T have c: "clock (snd (callback pendingEnv 1800 signedOutWorld)) = 33000"
    unfolding c0 by simp
  from T f0 show ?thesis
    unfolding c c0 by (simp add: cred_def stored_def writtenRecord_def numeral_eq_Suc)
qed

end
